theory Spec2Isabelle
  imports Main "HOL-Library.AList" "HOL-Library.Sublist" "HOL-Library.Word"
begin

section \<open>Values\<close>

text \<open>
  The values that travel through \<^verbatim>\<open>Settings\<close>: Python scalars, the scalar wrapper
  classes of tomlkit (\<^verbatim>\<open>items.String\<close>, \<^verbatim>\<open>items.Bool\<close>, \<^verbatim>\<open>items.Integer\<close>,
  \<^verbatim>\<open>items.Float\<close>, the keys of \<^verbatim>\<open>TOML_TO_BUILTIN_MAP\<close>), and the three mapping
  classes the code meets: a plain \<^verbatim>\<open>dict\<close>, a tomlkit table and a \<^verbatim>\<open>Box\<close>. Strings are
  ASCII text. A float is carried as its 64 bits and never computed with. A mapping is an
  association list, in insertion order.
\<close>

type_synonym pyfloat = "64 word"

datatype val =
    PyNone
  | PyStr string
  | PyBool bool
  | PyInt int
  | PyFloat pyfloat
  | TomlString string
  | TomlBool bool
  | TomlInteger int
  | TomlFloat pyfloat
  | PyDict "(string \<times> val) list"
  | TomlTable "(string \<times> val) list"
  | Box "(string \<times> val) list"

datatype error =
    OSError | PlainException | ImportError | TypeError | AttributeError
  | KeyError | IndexError | ValueError | ParseError | BotoCoreError

text \<open>\<^verbatim>\<open>isinstance(value, str)\<close> and \<^verbatim>\<open>isinstance(value, dict)\<close>: tomlkit's string item
  subclasses \<^verbatim>\<open>str\<close>, its table and \<^verbatim>\<open>Box\<close> subclass \<^verbatim>\<open>dict\<close>.\<close>

definition str_of :: "val \<Rightarrow> string option" where
  "str_of value = (case value of PyStr s \<Rightarrow> Some s | TomlString s \<Rightarrow> Some s | _ \<Rightarrow> None)"

definition items_of :: "val \<Rightarrow> (string \<times> val) list option" where
  "items_of value =
     (case value of PyDict kvs \<Rightarrow> Some kvs | TomlTable kvs \<Rightarrow> Some kvs | Box kvs \<Rightarrow> Some kvs
      | _ \<Rightarrow> None)"

text \<open>\<^verbatim>\<open>TOML_TO_BUILTIN_MAP[type(value)](value)\<close>, the identity outside the four wrappers.\<close>

definition to_builtin :: "val \<Rightarrow> val" where
  "to_builtin value =
     (case value of
        TomlString s \<Rightarrow> PyStr s
      | TomlBool b \<Rightarrow> PyBool b
      | TomlInteger i \<Rightarrow> PyInt i
      | TomlFloat f \<Rightarrow> PyFloat f
      | _ \<Rightarrow> value)"

text \<open>\<^verbatim>\<open>Box(value)\<close>: a \<^verbatim>\<open>Box\<close> turns every mapping stored in it into a \<^verbatim>\<open>Box\<close> as well.\<close>

fun to_box :: "val \<Rightarrow> val" where
  "to_box (PyDict kvs) = Box (map (\<lambda>(k, v). (k, to_box v)) kvs)"
| "to_box (TomlTable kvs) = Box (map (\<lambda>(k, v). (k, to_box v)) kvs)"
| "to_box (Box kvs) = Box (map (\<lambda>(k, v). (k, to_box v)) kvs)"
| "to_box v = v"

section \<open>Strings\<close>

definition upper_char :: "char \<Rightarrow> char" where
  "upper_char c =
     (case map_of (zip ''abcdefghijklmnopqrstuvwxyz'' ''ABCDEFGHIJKLMNOPQRSTUVWXYZ'') c of
        Some u \<Rightarrow> u | None \<Rightarrow> c)"

definition lower_char :: "char \<Rightarrow> char" where
  "lower_char c =
     (case map_of (zip ''ABCDEFGHIJKLMNOPQRSTUVWXYZ'' ''abcdefghijklmnopqrstuvwxyz'') c of
        Some l \<Rightarrow> l | None \<Rightarrow> c)"

definition upper :: "string \<Rightarrow> string" where
  "upper s = map upper_char s"

definition lower :: "string \<Rightarrow> string" where
  "lower s = map lower_char s"

text \<open>\<^verbatim>\<open>s.replace(old, "")\<close>: every occurrence of \<open>old\<close> goes, scanning from the left.\<close>

function remove_all :: "string \<Rightarrow> string \<Rightarrow> string" where
  "remove_all old [] = []"
| "remove_all old (c # cs) =
     (if old \<noteq> [] \<and> prefix old (c # cs) then remove_all old (drop (length old) (c # cs))
      else c # remove_all old cs)"
  by pat_completeness auto
termination
  by (relation "measure (\<lambda>(old, s). length s)") auto

text \<open>\<^verbatim>\<open>re.findall(r'\${(.*?)}', value)[0]\<close>: the first place where \<^verbatim>\<open>${\<close> is followed,
  before any line feed, by a closing brace; the text between them. \<open>None\<close> is the
  \<^verbatim>\<open>IndexError\<close> of indexing an empty list of matches.\<close>

fun until_brace :: "string \<Rightarrow> string option" where
  "until_brace [] = None"
| "until_brace (c # cs) =
     (if c = CHR ''}'' then Some []
      else if c = CHR 0x0A then None
      else map_option ((#) c) (until_brace cs))"

fun findall_first :: "string \<Rightarrow> string option" where
  "findall_first [] = None"
| "findall_first (c # cs) =
     (if prefix ''${'' (c # cs) then
        (case until_brace (tl cs) of Some var_name \<Rightarrow> Some var_name | None \<Rightarrow> findall_first cs)
      else findall_first cs)"

text \<open>\<^verbatim>\<open>int(text)\<close> on ASCII text: blanks around, one optional sign, decimal digits, single
  underscores between digits. \<open>None\<close> is the \<^verbatim>\<open>ValueError\<close>.\<close>

definition is_space :: "char \<Rightarrow> bool" where
  "is_space c = (c \<in> set [CHR '' '', CHR 0x09, CHR 0x0A, CHR 0x0B, CHR 0x0C, CHR 0x0D])"

definition strip :: "string \<Rightarrow> string" where
  "strip s = rev (dropWhile is_space (rev (dropWhile is_space s)))"

definition digit_of :: "char \<Rightarrow> int option" where
  "digit_of c = map_of (zip ''0123456789'' [0, 1, 2, 3, 4, 5, 6, 7, 8, 9]) c"

fun digits :: "int \<Rightarrow> string \<Rightarrow> int option" where
  "digits acc [] = Some acc"
| "digits acc [c] = map_option (\<lambda>d. 10 * acc + d) (digit_of c)"
| "digits acc (c # d # ds) =
     (if c = CHR ''_'' then
        (case digit_of d of Some n \<Rightarrow> digits (10 * acc + n) ds | None \<Rightarrow> None)
      else (case digit_of c of Some n \<Rightarrow> digits (10 * acc + n) (d # ds) | None \<Rightarrow> None))"

definition unsigned :: "string \<Rightarrow> int option" where
  "unsigned s =
     (case s of [] \<Rightarrow> None
      | c # cs \<Rightarrow> (case digit_of c of Some n \<Rightarrow> digits n cs | None \<Rightarrow> None))"

definition py_int :: "string \<Rightarrow> int option" where
  "py_int s =
     (case strip s of
        [] \<Rightarrow> None
      | c # cs \<Rightarrow>
          if c = CHR ''-'' then map_option uminus (unsigned cs)
          else if c = CHR ''+'' then unsigned cs
          else unsigned (c # cs))"

section \<open>The process, the secret store and the settings object\<close>

text \<open>
  What the code reads from outside itself: the process environment (\<^verbatim>\<open>os.environ\<close>),
  whether \<^verbatim>\<open>boto3\<close> could be imported (\<^verbatim>\<open>_boto_available\<close>), the files on disk as
  \<^verbatim>\<open>os.path.exists\<close> and tomlkit's \<^verbatim>\<open>parse\<close> see them, and Python's \<^verbatim>\<open>float(text)\<close>
  (\<open>None\<close> for its \<^verbatim>\<open>ValueError\<close>), the client \<^verbatim>\<open>boto3.client("ssm")\<close> returns, and what
  the installed Python and \<^verbatim>\<open>python-box\<close> resolve as attributes: the attribute names that
  Python itself gives to a class and its instances (those of \<^verbatim>\<open>object\<close>, and \<^verbatim>\<open>__dict__\<close>,
  \<^verbatim>\<open>__module__\<close>, ...), the attribute names of the class \<^verbatim>\<open>Box\<close> (its methods and those of \<^verbatim>\<open>dict\<close>:
  \<^verbatim>\<open>get\<close>, \<^verbatim>\<open>keys\<close>, \<^verbatim>\<open>items\<close>, \<^verbatim>\<open>to_dict\<close>, ...), and the conversion of a \<^verbatim>\<open>Box\<close>: for an
  attribute name that is no key, the stored key whose attribute-safe form is that name,
  if there is one. A parsed document lists its top-level entries in file order, with the
  values that iterating over it yields: tomlkit hands a boolean out as a plain \<^verbatim>\<open>bool\<close>
  and every other scalar as its wrapper.
\<close>

text \<open>A call of \<^verbatim>\<open>get_parameter(Name=..., WithDecryption=True)\<close>: a response, with the
  parameter's value when the response has a \<^verbatim>\<open>"Parameter"\<close>, or botocore's
  \<^verbatim>\<open>ClientError\<close> with its text, or any other exception.\<close>

datatype ssm_reply = Response "string option" | ClientError string | OtherFailure

datatype disk_file = Missing | Unparsable | Document "(string \<times> val) list"

record world =
  environ :: "string \<rightharpoonup> string"
  boto_available :: bool
  files :: "string \<Rightarrow> disk_file"
  py_float :: "string \<Rightarrow> pyfloat option"
  boto3_client :: "string \<Rightarrow> ssm_reply"
  object_attributes :: "string list"
  box_attributes :: "string list"
  box_conversion :: "string list \<Rightarrow> string \<Rightarrow> string option"

text \<open>The calls of the module's \<^verbatim>\<open>logger\<close>: a level and the message.\<close>

datatype level = INFO | ERROR

type_synonym log_record = "level \<times> string"

text \<open>The fields of a \<^verbatim>\<open>Settings\<close> object and, with them, the records its methods have
  handed to the logger so far (the only state outside the object that they change).\<close>

record settings =
  store :: "(string \<times> val) list"
  env :: string
  ssm :: "(string \<Rightarrow> ssm_reply) option"
  logged :: "log_record list"

text \<open>A method either returns or raises; in both cases the object is left in some state.\<close>

datatype outcome = Done settings | Raised error settings

definition state_of :: "outcome \<Rightarrow> settings" where
  "state_of r = (case r of Done self \<Rightarrow> self | Raised e self \<Rightarrow> self)"

definition logger_call :: "level \<Rightarrow> string \<Rightarrow> settings \<Rightarrow> settings" where
  "logger_call lvl message self = self\<lparr>logged := logged self @ [(lvl, message)]\<rparr>"

definition getenv :: "world \<Rightarrow> string \<Rightarrow> val" where
  "getenv w key = (case environ w key of Some s \<Rightarrow> PyStr s | None \<Rightarrow> PyNone)"

text \<open>The truth value of \<^verbatim>\<open>parent\<close>: \<^verbatim>\<open>None\<close> and the empty string are false.\<close>

definition truthy :: "string option \<Rightarrow> bool" where
  "truthy parent = (case parent of None \<Rightarrow> False | Some p \<Rightarrow> p \<noteq> [])"

section \<open>Settings\<close>

definition clear :: "settings \<Rightarrow> settings" where
  "clear self = self\<lparr>store := []\<rparr>"

text \<open>\<^verbatim>\<open>set_attr\<close>. Writing under a parent whose slot holds something that is not a mapping
  is Python's \<^verbatim>\<open>TypeError\<close> (no item assignment). Every mapping in the store is a
  \<^verbatim>\<open>Box\<close>, since this is the only writer.\<close>

definition set_attr :: "string \<Rightarrow> val \<Rightarrow> string option \<Rightarrow> settings \<Rightarrow> outcome" where
  "set_attr name value parent self =
     (let value = to_box (to_builtin value) in
      if truthy parent then
        (let p = the parent;
             st = (if map_of (store self) p = None then AList.update p (Box []) (store self)
                   else store self)
         in case map_of st p of
              Some (Box kvs) \<Rightarrow>
                Done (self\<lparr>store := AList.update p (Box (AList.update name value kvs)) st\<rparr>)
            | _ \<Rightarrow> Raised TypeError (self\<lparr>store := st\<rparr>))
      else Done (self\<lparr>store := AList.update name value (store self)\<rparr>))"

definition set_from_env_var_interpolation ::
  "world \<Rightarrow> string \<Rightarrow> val \<Rightarrow> string option \<Rightarrow> settings \<Rightarrow> outcome" where
  "set_from_env_var_interpolation w name value parent self =
     (case str_of value of
        None \<Rightarrow> Raised TypeError self
      | Some s \<Rightarrow>
          (case findall_first s of
             None \<Rightarrow> Raised IndexError self
           | Some var_name \<Rightarrow>
               if environ w var_name \<noteq> None then set_attr name (getenv w var_name) parent self
               else set_attr name PyNone parent self))"

text \<open>The body of the \<^verbatim>\<open>try\<close> in \<^verbatim>\<open>_set_from_parent_env_var\<close>: the constructor of the raw
  value's type applied to the variable's text. \<^verbatim>\<open>attr\<close> is \<open>None\<close> when the variable
  is unset (\<^verbatim>\<open>os.getenv\<close> then gives \<^verbatim>\<open>None\<close>).\<close>

definition cast :: "world \<Rightarrow> val \<Rightarrow> string option \<Rightarrow> error + val" where
  "cast w value attr =
     (let as_str = Inr (PyStr (case attr of Some s \<Rightarrow> s | None \<Rightarrow> ''None''));
          as_int = (case attr of None \<Rightarrow> Inl TypeError
                    | Some s \<Rightarrow> (case py_int s of Some i \<Rightarrow> Inr (PyInt i) | None \<Rightarrow> Inl ValueError));
          as_float = (case attr of None \<Rightarrow> Inl TypeError
                    | Some s \<Rightarrow> (case py_float w s of Some f \<Rightarrow> Inr (PyFloat f)
                                 | None \<Rightarrow> Inl ValueError))
      in case value of
           TomlString _ \<Rightarrow> as_str
         | TomlBool _ \<Rightarrow> Inr (PyBool (case attr of Some s \<Rightarrow> s \<noteq> [] | None \<Rightarrow> False))
         | TomlInteger _ \<Rightarrow> as_int
         | TomlFloat _ \<Rightarrow> as_float
         | PyBool _ \<Rightarrow>
             (case attr of Some s \<Rightarrow> Inr (PyBool (lower s = ''true'')) | None \<Rightarrow> Inl AttributeError)
         | PyStr _ \<Rightarrow> as_str
         | PyInt _ \<Rightarrow> as_int
         | PyFloat _ \<Rightarrow> as_float
         | PyDict _ \<Rightarrow>
             (case attr of Some s \<Rightarrow> if s = [] then Inr (PyDict []) else Inl ValueError
              | None \<Rightarrow> Inl TypeError)
         | TomlTable _ \<Rightarrow> Inl TypeError
         | Box _ \<Rightarrow> Inl ValueError
         | PyNone \<Rightarrow> Inl TypeError)"

text \<open>\<^verbatim>\<open>str(type(value))\<close> and \<^verbatim>\<open>str(attr)\<close>, for the message of a failed cast.\<close>

definition type_repr :: "val \<Rightarrow> string" where
  "type_repr value =
     ''<class '' @ [CHR 0x27] @
     (case value of
        PyNone \<Rightarrow> ''NoneType'' | PyStr _ \<Rightarrow> ''str'' | PyBool _ \<Rightarrow> ''bool''
      | PyInt _ \<Rightarrow> ''int'' | PyFloat _ \<Rightarrow> ''float''
      | TomlString _ \<Rightarrow> ''tomlkit.items.String'' | TomlBool _ \<Rightarrow> ''tomlkit.items.Bool''
      | TomlInteger _ \<Rightarrow> ''tomlkit.items.Integer'' | TomlFloat _ \<Rightarrow> ''tomlkit.items.Float''
      | PyDict _ \<Rightarrow> ''dict'' | TomlTable _ \<Rightarrow> ''tomlkit.items.Table''
      | Box _ \<Rightarrow> ''box.box.Box'')
     @ [CHR 0x27] @ ''>''"

definition cast_message :: "string \<Rightarrow> string \<Rightarrow> string option \<Rightarrow> val \<Rightarrow> string" where
  "cast_message parent name attr value =
     ''Could not cast setting '' @ parent @ ''.'' @ name @ '' with value '' @
     (case attr of Some s \<Rightarrow> s | None \<Rightarrow> ''None'') @ '' to type '' @ type_repr value"

definition set_from_parent_env_var ::
  "world \<Rightarrow> string \<Rightarrow> val \<Rightarrow> string option \<Rightarrow> settings \<Rightarrow> outcome" where
  "set_from_parent_env_var w name value parent self =
     (case parent of
        None \<Rightarrow> Raised AttributeError self
      | Some p \<Rightarrow>
          (let attr = environ w (upper p @ ''_'' @ upper name) in
           case cast w value attr of
             Inr v \<Rightarrow> set_attr name v parent self
           | Inl e \<Rightarrow>
               if e = ValueError then
                 set_attr name (case attr of Some s \<Rightarrow> PyStr s | None \<Rightarrow> PyNone) parent
                   (logger_call INFO (cast_message p name attr value) self)
               else Raised e self))"

definition set_from_ssm ::
  "world \<Rightarrow> string \<Rightarrow> val \<Rightarrow> string option \<Rightarrow> settings \<Rightarrow> outcome" where
  "set_from_ssm w name value parent self =
     (if \<not> boto_available w then Raised ImportError self
      else
        (case ssm self of
           None \<Rightarrow> Raised AttributeError self
         | Some get_parameter \<Rightarrow>
             (case str_of value of
                None \<Rightarrow> Raised AttributeError self
              | Some s \<Rightarrow>
                  (case get_parameter (remove_all ''ssm:'' s) of
                     Response None \<Rightarrow> Done self
                   | Response (Some v) \<Rightarrow> set_attr name (PyStr v) parent self
                   | ClientError e \<Rightarrow> Done (logger_call ERROR e self)
                   | OtherFailure \<Rightarrow> Raised BotoCoreError self))))"

definition is_interpolation :: "val \<Rightarrow> bool" where
  "is_interpolation value =
     (case str_of value of Some s \<Rightarrow> prefix ''${'' s \<and> suffix ''}'' s | None \<Rightarrow> False)"

definition is_ssm :: "val \<Rightarrow> bool" where
  "is_ssm value = (case str_of value of Some s \<Rightarrow> prefix ''ssm:'' s | None \<Rightarrow> False)"

text \<open>\<^verbatim>\<open>_set_value_from_config\<close>, with the loop over a mapping's items as \<open>set_items\<close>;
  \<^verbatim>\<open>load\<close> runs the same loop with no parent. An exception ends the loop where it is
  raised, with the keys already written kept.\<close>

fun set_value_from_config ::
    "world \<Rightarrow> string \<Rightarrow> val \<Rightarrow> string option \<Rightarrow> settings \<Rightarrow> outcome"
  and set_items :: "world \<Rightarrow> (string \<times> val) list \<Rightarrow> string option \<Rightarrow> settings \<Rightarrow> outcome" where
  "set_value_from_config w name value parent self =
     (if environ w (upper name) \<noteq> None \<and> \<not> truthy parent then
        set_attr name (getenv w (upper name)) parent self
      else if truthy parent \<and> environ w (upper (the parent) @ ''_'' @ upper name) \<noteq> None then
        set_from_parent_env_var w name value parent self
      else
        (case value of
           PyDict kvs \<Rightarrow> set_items w kvs (Some name) self
         | TomlTable kvs \<Rightarrow> set_items w kvs (Some name) self
         | Box kvs \<Rightarrow> set_items w kvs (Some name) self
         | _ \<Rightarrow>
             if is_interpolation value then set_from_env_var_interpolation w name value parent self
             else if is_ssm value then set_from_ssm w name value parent self
             else set_attr name value parent self))"
| "set_items w [] parent self = Done self"
| "set_items w ((k, v) # kvs) parent self =
     (case set_value_from_config w k v parent self of
        Done self' \<Rightarrow> set_items w kvs parent self'
      | Raised e self' \<Rightarrow> Raised e self')"

fun load_tables :: "world \<Rightarrow> (string \<times> val) list \<Rightarrow> settings \<Rightarrow> outcome" where
  "load_tables w [] self = Done self"
| "load_tables w ((table, items) # rest) self =
     (if prefix (env self) table \<or> table = ''default'' then
        (case items_of items of
           None \<Rightarrow> Raised AttributeError self
         | Some kvs \<Rightarrow>
             (case set_items w kvs None self of
                Done self' \<Rightarrow> load_tables w rest self'
              | Raised e self' \<Rightarrow> Raised e self'))
      else load_tables w rest self)"

definition load :: "world \<Rightarrow> string \<Rightarrow> settings \<Rightarrow> outcome" where
  "load w config_filepath self =
     (case files w config_filepath of
        Missing \<Rightarrow> Raised OSError self
      | Unparsable \<Rightarrow> Raised ParseError (clear self)
      | Document settings_data \<Rightarrow>
          if map_of settings_data ''default'' = None then Raised PlainException (clear self)
          else load_tables w settings_data (clear self))"

section \<open>Reading the settings\<close>

text \<open>What an attribute access can return: one of the three internal fields, a stored
  value, or an attribute of a class (a method, a class constant), named by its owner.\<close>

datatype owner = OfSettings | OfBox

datatype attribute =
    StoreAttr "(string \<times> val) list"
  | SsmAttr "(string \<Rightarrow> ssm_reply) option"
  | ValAttr val
  | ClassAttr owner string

text \<open>
  Attribute access on a \<^verbatim>\<open>Box\<close>, \<^verbatim>\<open>getattr(self._store, name)\<close>. Python looks on the
  class first, so a name of \<^verbatim>\<open>Box\<close> itself (\<^verbatim>\<open>get\<close>, \<^verbatim>\<open>keys\<close>, \<^verbatim>\<open>items\<close>, ...) gives that
  attribute; \<^verbatim>\<open>test_getattr\<close> calls \<^verbatim>\<open>settings.get("project_name")\<close> this way. Otherwise
  \<^verbatim>\<open>Box.__getattr__\<close> gives the value under the key, then the value under the key that the
  conversion finds for the name, and raises \<^verbatim>\<open>BoxKeyError\<close>, an \<^verbatim>\<open>AttributeError\<close>, when
  there is none. The repository's tests rest on the last case:
  \<^verbatim>\<open>assert not hasattr(settings, "test")\<close> after a reload and
  \<^verbatim>\<open>assert not hasattr(settings, "project_name")\<close> after \<^verbatim>\<open>clear()\<close> hold only if the
  access raises.
\<close>

definition box_getattr :: "world \<Rightarrow> (string \<times> val) list \<Rightarrow> string \<Rightarrow> error + attribute" where
  "box_getattr w box name =
     (if name \<in> set (box_attributes w) then Inr (ClassAttr OfBox name)
      else
        (case map_of box name of
           Some v \<Rightarrow> Inr (ValAttr v)
         | None \<Rightarrow>
             (case box_conversion w (map fst box) name of
                None \<Rightarrow> Inl AttributeError
              | Some key \<Rightarrow>
                  (case map_of box key of Some v \<Rightarrow> Inr (ValAttr v) | None \<Rightarrow> Inl AttributeError))))"

definition INTERNAL_ATTRS :: "string list" where
  "INTERNAL_ATTRS = [''_store'', ''_ssm'', ''env'']"

definition internal_attr :: "settings \<Rightarrow> string \<Rightarrow> attribute" where
  "internal_attr self name =
     (if name = ''_store'' then StoreAttr (store self)
      else if name = ''_ssm'' then SsmAttr (ssm self)
      else ValAttr (PyStr (env self)))"

text \<open>The method \<^verbatim>\<open>__getattr__\<close>.\<close>

definition dunder_getattr :: "world \<Rightarrow> settings \<Rightarrow> string \<Rightarrow> error + attribute" where
  "dunder_getattr w self name =
     (if name \<in> set INTERNAL_ATTRS then Inr (internal_attr self name)
      else box_getattr w (store self) name)"

text \<open>The names bound in the body of the class \<^verbatim>\<open>Settings\<close>.\<close>

definition SETTINGS_ATTRS :: "string list" where
  "SETTINGS_ATTRS =
     [''TOML_TO_BUILTIN_MAP'', ''INTERNAL_ATTRS'', ''__init__'', ''load'', ''clear'',
      ''_set_value_from_config'', ''_set_from_env_var_interpolation'',
      ''_set_from_parent_env_var'', ''_set_from_ssm'', ''set_attr'', ''__dir__'',
      ''__getattr__'', ''__setattr__'', ''__contains__'', ''__getitem__'', ''__setitem__'',
      ''__iter__'', ''items'', ''keys'', ''values'']"

text \<open>The expression \<^verbatim>\<open>settings.name\<close>: Python finds the three fields on the instance and
  the names of the class and of \<^verbatim>\<open>object\<close> on the class, and calls \<^verbatim>\<open>__getattr__\<close> for
  every other name.\<close>

definition getattr :: "world \<Rightarrow> settings \<Rightarrow> string \<Rightarrow> error + attribute" where
  "getattr w self name =
     (if name \<in> set INTERNAL_ATTRS then Inr (internal_attr self name)
      else if name \<in> set SETTINGS_ATTRS \<or> name \<in> set (object_attributes w) then
        Inr (ClassAttr OfSettings name)
      else dunder_getattr w self name)"

text \<open>\<^verbatim>\<open>hasattr(settings, name)\<close>: whether the access returns.\<close>

definition hasattr :: "world \<Rightarrow> settings \<Rightarrow> string \<Rightarrow> bool" where
  "hasattr w self name = (case getattr w self name of Inr _ \<Rightarrow> True | Inl _ \<Rightarrow> False)"

text \<open>\<^verbatim>\<open>__getitem__\<close>: \<^verbatim>\<open>self._store.get(item)\<close> is \<^verbatim>\<open>None\<close> for an absent key.\<close>

definition getitem :: "settings \<Rightarrow> string \<Rightarrow> error + val" where
  "getitem self item =
     (let value = (case map_of (store self) item of Some v \<Rightarrow> v | None \<Rightarrow> PyNone)
      in if value = PyNone then Inl KeyError else Inr value)"

definition contains :: "settings \<Rightarrow> string \<Rightarrow> bool" where
  "contains self item =
     (map_of (store self) (upper item) \<noteq> None \<or> map_of (store self) (lower item) \<noteq> None)"

text \<open>\<^verbatim>\<open>__init__\<close>, after the environment overlay has been loaded.\<close>

definition init :: "world \<Rightarrow> string option \<Rightarrow> string \<Rightarrow> outcome" where
  "init w config_filepath env_tag =
     (let self = \<lparr>store = [], env = env_tag,
                  ssm = (if boto_available w then Some (boto3_client w) else None),
                  logged = []\<rparr>
      in if truthy config_filepath then load w (the config_filepath) self else Done self)"

section \<open>Vocabulary of the properties\<close>

text \<open>An environment variable takes the key over: the first two tests of
  \<^verbatim>\<open>_set_value_from_config\<close>.\<close>

definition env_override :: "world \<Rightarrow> string \<Rightarrow> string option \<Rightarrow> bool" where
  "env_override w name parent =
     (if truthy parent then environ w (upper (the parent) @ ''_'' @ upper name) \<noteq> None
      else environ w (upper name) \<noteq> None)"

text \<open>The slot of the parent is free or holds a \<^verbatim>\<open>Box\<close>, so that \<^verbatim>\<open>set_attr\<close> can write
  under it.\<close>

definition writable :: "string option \<Rightarrow> settings \<Rightarrow> bool" where
  "writable parent self =
     (if truthy parent then
        (case map_of (store self) (the parent) of
           None \<Rightarrow> True | Some (Box _) \<Rightarrow> True | _ \<Rightarrow> False)
      else True)"

text \<open>What is read back as \<^verbatim>\<open>settings.name\<close>, or \<^verbatim>\<open>settings.parent.name\<close> under a parent.\<close>

definition stored :: "settings \<Rightarrow> string option \<Rightarrow> string \<Rightarrow> val option" where
  "stored self parent name =
     (if truthy parent then
        (case map_of (store self) (the parent) of
           Some (Box kvs) \<Rightarrow> map_of kvs name | _ \<Rightarrow> None)
      else map_of (store self) name)"

text \<open>The place of the store that \<^verbatim>\<open>set_attr\<close> writes for a name and a parent: the name under
  the parent's key, or the key of that name at the root. Two places clash when they are
  the same, or when one is a root key and the other lies under it.\<close>

definition place :: "string \<Rightarrow> string option \<Rightarrow> string \<times> string option" where
  "place name parent = (if truthy parent then (the parent, Some name) else (name, None))"

definition clash :: "string \<times> string option \<Rightarrow> string \<times> string option \<Rightarrow> bool" where
  "clash a b = (fst a = fst b \<and> (snd a = None \<or> snd b = None \<or> snd a = snd b))"

text \<open>The items that \<^verbatim>\<open>_set_value_from_config\<close> resolves without recursing, in the order in
  which it meets them: an item that an environment variable overrides or whose value is
  no mapping is one; a mapping that is not overridden gives those of its items, with its
  own name as their parent.\<close>

fun leaves :: "world \<Rightarrow> string \<Rightarrow> val \<Rightarrow> string option \<Rightarrow> (string \<times> val \<times> string option) list"
  and leaves_items ::
    "world \<Rightarrow> (string \<times> val) list \<Rightarrow> string option \<Rightarrow> (string \<times> val \<times> string option) list" where
  "leaves w name value parent =
     (if env_override w name parent then [(name, value, parent)]
      else
        (case value of
           PyDict kvs \<Rightarrow> leaves_items w kvs (Some name)
         | TomlTable kvs \<Rightarrow> leaves_items w kvs (Some name)
         | Box kvs \<Rightarrow> leaves_items w kvs (Some name)
         | _ \<Rightarrow> [(name, value, parent)]))"
| "leaves_items w [] parent = []"
| "leaves_items w ((k, v) # kvs) parent = leaves w k v parent @ leaves_items w kvs parent"

text \<open>An item of that kind.\<close>

definition is_leaf :: "world \<Rightarrow> string \<times> val \<times> string option \<Rightarrow> bool" where
  "is_leaf w item = (case item of (name, value, parent) \<Rightarrow>
     env_override w name parent \<or> items_of value = None)"

text \<open>The same over the sections of a document that \<^verbatim>\<open>load\<close> applies under an environment
  tag, in file order.\<close>

fun applied_items ::
  "world \<Rightarrow> string \<Rightarrow> (string \<times> val) list \<Rightarrow> (string \<times> val \<times> string option) list" where
  "applied_items w tag [] = []"
| "applied_items w tag ((table, items) # rest) =
     (if prefix tag table \<or> table = ''default'' then
        (case items_of items of Some kvs \<Rightarrow> leaves_items w kvs None | None \<Rightarrow> [])
      else [])
     @ applied_items w tag rest"

text \<open>Resolving a list of such items one after the other, up to the first exception.\<close>

fun run_items :: "world \<Rightarrow> (string \<times> val \<times> string option) list \<Rightarrow> settings \<Rightarrow> outcome" where
  "run_items w [] self = Done self"
| "run_items w ((name, value, parent) # rest) self =
     (case set_value_from_config w name value parent self of
        Done self' \<Rightarrow> run_items w rest self'
      | Raised e self' \<Rightarrow> Raised e self')"

text \<open>An outcome that left the environment tag and the client alone, and what is read back
  at every place that clashes with none of \<open>W\<close>.\<close>

definition keeps :: "(string \<times> string option) set \<Rightarrow> settings \<Rightarrow> outcome \<Rightarrow> bool" where
  "keeps W self r =
     (env (state_of r) = env self \<and> ssm (state_of r) = ssm self \<and>
      (\<forall>parent name. (\<forall>loc \<in> W. \<not> clash loc (place name parent)) \<longrightarrow>
         stored (state_of r) parent name = stored self parent name))"

text \<open>Two documents with the same two sections in either order: a root key and a table
  \<^verbatim>\<open>db\<close> in both.\<close>

definition example_default :: "string \<times> val" where
  "example_default =
     (''default'', TomlTable [(''user'', TomlString ''nobody''),
        (''db'', TomlTable [(''host'', TomlString ''localhost''), (''port'', TomlInteger 5432)])])"

definition example_dev :: "string \<times> val" where
  "example_dev =
     (''dev'', TomlTable [(''user'', TomlString ''${LOGNAME}''),
        (''db'', TomlTable [(''host'', TomlString ''dev.example.org'')])])"

text \<open>A process with the given environment variables, \<^verbatim>\<open>boto3\<close> installed, one file
  \<^verbatim>\<open>example.toml\<close> on disk and a parameter store that knows \<^verbatim>\<open>/data/test/my_var\<close>; and a
  fresh \<^verbatim>\<open>Settings()\<close> of the environment \<^verbatim>\<open>dev\<close>. The examples hold no float, and
  their \<^verbatim>\<open>float\<close> accepts no text. The conversion of their \<^verbatim>\<open>Box\<close> reads a blank or a
  hyphen of a key as an underscore.\<close>

definition example_ssm :: "string \<Rightarrow> ssm_reply" where
  "example_ssm name =
     (if name = ''/data/test/my_var'' then Response (Some ''test'')
      else ClientError ''ParameterNotFound'')"

definition example_object_attributes :: "string list" where
  "example_object_attributes =
     [''__class__'', ''__delattr__'', ''__dict__'', ''__doc__'', ''__eq__'', ''__format__'',
      ''__ge__'', ''__getattribute__'', ''__gt__'', ''__hash__'', ''__init_subclass__'',
      ''__le__'', ''__lt__'', ''__module__'', ''__ne__'', ''__new__'', ''__reduce__'',
      ''__reduce_ex__'', ''__repr__'', ''__sizeof__'', ''__str__'', ''__subclasshook__'',
      ''__weakref__'']"

definition example_box_attributes :: "string list" where
  "example_box_attributes =
     example_object_attributes @
     [''clear'', ''copy'', ''fromkeys'', ''get'', ''items'', ''keys'', ''pop'', ''popitem'',
      ''setdefault'', ''update'', ''values'', ''merge_update'', ''to_dict'', ''to_json'',
      ''to_yaml'', ''to_toml'', ''from_json'', ''from_yaml'', ''from_toml'', ''_box_config'',
      ''__init__'', ''__dir__'', ''__getattr__'', ''__setattr__'', ''__contains__'',
      ''__getitem__'', ''__setitem__'', ''__delitem__'', ''__iter__'', ''__len__'']"

definition example_conversion :: "string list \<Rightarrow> string \<Rightarrow> string option" where
  "example_conversion box_keys name =
     find (\<lambda>key. map (\<lambda>c. if c = CHR '' '' \<or> c = CHR ''-'' then CHR ''_'' else c) key = name)
       box_keys"

definition example_world :: "(string \<times> string) list \<Rightarrow> (string \<times> val) list \<Rightarrow> world" where
  "example_world vars document =
     \<lparr>environ = map_of vars, boto_available = True,
      files = (\<lambda>path. if path = ''example.toml'' then Document document else Missing),
      py_float = (\<lambda>text. None), boto3_client = example_ssm,
      object_attributes = example_object_attributes,
      box_attributes = example_box_attributes,
      box_conversion = example_conversion\<rparr>"

definition example_settings :: settings where
  "example_settings = \<lparr>store = [], env = ''dev'', ssm = Some example_ssm, logged = []\<rparr>"

section \<open>The single writer\<close>

declare set_value_from_config.simps [simp del]

lemma map_of_update_same: "map_of (AList.update k v al) k = Some v"
  by (simp add: update_conv')

lemma map_of_update_other: "k' \<noteq> k \<Longrightarrow> map_of (AList.update k v al) k' = map_of al k'"
  by (simp add: update_conv')

lemma set_attr_root:
  "\<not> truthy parent \<Longrightarrow>
   set_attr name value parent self =
     Done (self\<lparr>store := AList.update name (to_box (to_builtin value)) (store self)\<rparr>)"
  by (simp add: set_attr_def)

lemma set_attr_writable:
  assumes "writable parent self"
  shows "\<exists>self'. set_attr name value parent self = Done self' \<and>
           stored self' parent name = Some (to_box (to_builtin value)) \<and>
           env self' = env self \<and> ssm self' = ssm self"
proof (cases "truthy parent")
  case False
  then show ?thesis
    by (simp add: set_attr_root stored_def map_of_update_same)
next
  case True
  show ?thesis
  proof (cases "map_of (store self) (the parent)")
    case None
    with True show ?thesis
      by (simp add: set_attr_def stored_def map_of_update_same)
  next
    case (Some b)
    with True assms obtain kvs where "b = Box kvs"
      by (auto simp: writable_def split: val.splits)
    with True Some show ?thesis
      by (simp add: set_attr_def stored_def map_of_update_same)
  qed
qed

lemma writable_logger_call: "writable parent (logger_call lvl m self) = writable parent self"
  by (simp add: writable_def logger_call_def)

lemma stored_logger_call: "stored (logger_call lvl m self) parent name = stored self parent name"
  by (simp add: stored_def logger_call_def)

section \<open>Environment variables over root keys\<close>

lemma svfc_override_root:
  assumes "environ w (upper K) = Some S" and "\<not> truthy parent"
  shows "set_value_from_config w K V parent self =
           Done (self\<lparr>store := AList.update K (PyStr S) (store self)\<rparr>)"
  using assms by (simp add: set_value_from_config.simps set_attr_root getenv_def to_builtin_def)

text \<open>
  Claim C2. A root-level key \<open>K\<close> (no parent, or the empty parent, which Python takes as
  none) whose upper-cased name is an environment variable set to \<open>S\<close> resolves to the
  string \<open>S\<close>, whatever the raw value \<open>V\<close> is: a mapping, a \<^verbatim>\<open>${...}\<close> reference, an
  \<^verbatim>\<open>ssm:\<close> reference or a scalar of any type. The store holds \<open>PyStr S\<close> under \<open>K\<close> and
  \<^verbatim>\<open>settings[K]\<close> returns it.
\<close>

theorem root_env_var_wins:
  assumes "environ w (upper K) = Some S" and "\<not> truthy parent"
  shows "set_value_from_config w K V parent self =
           Done (self\<lparr>store := AList.update K (PyStr S) (store self)\<rparr>) \<and>
         getitem (state_of (set_value_from_config w K V parent self)) K = Inr (PyStr S)"
  using assms
  by (simp add: svfc_override_root state_of_def getitem_def map_of_update_same)

theorem root_env_var_wins_witness:
  "environ (example_world [(''PROJECT_NAME'', ''abc'')] []) (upper ''project_name'') = Some ''abc'' \<and>
   \<not> truthy None \<and>
   set_value_from_config (example_world [(''PROJECT_NAME'', ''abc'')] []) ''project_name''
       (PyDict [(''a'', PyInt 1)]) None example_settings =
     Done (example_settings\<lparr>store := [(''project_name'', PyStr ''abc'')]\<rparr>) \<and>
   getitem (state_of (set_value_from_config (example_world [(''PROJECT_NAME'', ''abc'')] [])
       ''project_name'' (PyDict [(''a'', PyInt 1)]) None example_settings)) ''project_name'' =
     Inr (PyStr ''abc'')"
proof -
  have e: "environ (example_world [(''PROJECT_NAME'', ''abc'')] []) (upper ''project_name'') = Some ''abc''"
    by (simp add: example_world_def upper_def upper_char_def)
  have t: "\<not> truthy None"
    by (simp add: truthy_def)
  show ?thesis
    using root_env_var_wins [OF e t, of "PyDict [(''a'', PyInt 1)]" example_settings] e t
    by (simp add: example_settings_def state_of_def getitem_def)
qed

section \<open>Resolution without an environment override\<close>

lemma svfc_no_override:
  assumes "\<not> env_override w name parent"
  shows "set_value_from_config w name value parent self =
     (case items_of value of
        Some kvs \<Rightarrow> set_items w kvs (Some name) self
      | None \<Rightarrow>
          if is_interpolation value then set_from_env_var_interpolation w name value parent self
          else if is_ssm value then set_from_ssm w name value parent self
          else set_attr name value parent self)"
  using assms
  by (cases "value") (auto simp: set_value_from_config.simps env_override_def items_of_def)

lemma str_not_items: "str_of value = Some s \<Longrightarrow> items_of value = None"
  by (cases "value") (simp_all add: str_of_def items_of_def)

lemma ssm_not_interpolation:
  assumes "str_of value = Some s" and "prefix ''ssm:'' s"
  shows "\<not> is_interpolation value" and "is_ssm value"
  using assms by (auto simp: is_interpolation_def is_ssm_def prefix_def)

section \<open>The secret store\<close>

text \<open>
  Claim C7. A key whose raw value is a string that starts with \<^verbatim>\<open>ssm:\<close>, and that no
  environment variable overrides, raises \<^verbatim>\<open>ImportError\<close> when \<^verbatim>\<open>boto3\<close> is not available.
  Nothing is written, and the error is not swallowed: the loop over the section's items
  stops there and raises it too.
\<close>

theorem ssm_without_boto_raises:
  assumes "str_of value = Some s" and "prefix ''ssm:'' s"
    and "\<not> env_override w name parent" and "\<not> boto_available w"
  shows "set_value_from_config w name value parent self = Raised ImportError self \<and>
         set_items w ((name, value) # rest) parent self = Raised ImportError self"
proof -
  have "set_value_from_config w name value parent self = set_from_ssm w name value parent self"
    using assms ssm_not_interpolation [OF assms(1,2)]
    by (simp add: svfc_no_override str_not_items)
  then show ?thesis
    using assms(4) by (simp add: set_from_ssm_def)
qed

theorem ssm_without_boto_raises_witness:
  "str_of (TomlString ''ssm:/data/test/my_var'') = Some ''ssm:/data/test/my_var'' \<and>
   prefix ''ssm:'' ''ssm:/data/test/my_var'' \<and>
   \<not> env_override ((example_world [] [])\<lparr>boto_available := False\<rparr>) ''ssm_var'' None \<and>
   \<not> boto_available ((example_world [] [])\<lparr>boto_available := False\<rparr>) \<and>
   set_value_from_config ((example_world [] [])\<lparr>boto_available := False\<rparr>) ''ssm_var''
       (TomlString ''ssm:/data/test/my_var'') None example_settings =
     Raised ImportError example_settings \<and>
   set_items ((example_world [] [])\<lparr>boto_available := False\<rparr>)
       [(''ssm_var'', TomlString ''ssm:/data/test/my_var''), (''later'', PyInt 1)] None
       example_settings =
     Raised ImportError example_settings"
proof -
  let ?w = "(example_world [] [])\<lparr>boto_available := False\<rparr>"
  have a: "str_of (TomlString ''ssm:/data/test/my_var'') = Some ''ssm:/data/test/my_var''"
    by (simp add: str_of_def)
  have b: "prefix ''ssm:'' ''ssm:/data/test/my_var''"
    by simp
  have c: "\<not> env_override ?w ''ssm_var'' None"
    by (simp add: env_override_def truthy_def example_world_def)
  have d: "\<not> boto_available ?w"
    by simp
  show ?thesis
    using ssm_without_boto_raises [OF a b c d, where self = example_settings
        and rest = "[(''later'', PyInt 1)]"] a b c d
    by simp
qed

text \<open>
  Claim C8, as stated, fails in two ways. A fetch that fails with an exception other than
  botocore's \<^verbatim>\<open>ClientError\<close> (no credentials, no connection) is not caught: the key raises
  and the loop over the items stops. And after a \<^verbatim>\<open>ClientError\<close> the key is not always
  unset: \<^verbatim>\<open>api_key\<close>, set by \<^verbatim>\<open>[default]\<close>, keeps that value when the fetch for \<^verbatim>\<open>[dev]\<close>
  fails.
\<close>

theorem ssm_fetch_failure_counterexample:
  "set_value_from_config (example_world [] []) ''ssm_var'' (TomlString ''ssm:/data/test/my_var'')
       None (example_settings\<lparr>ssm := Some (\<lambda>name. OtherFailure)\<rparr>) =
     Raised BotoCoreError (example_settings\<lparr>ssm := Some (\<lambda>name. OtherFailure)\<rparr>) \<and>
   set_items (example_world [] [])
       [(''ssm_var'', TomlString ''ssm:/data/test/my_var''), (''later'', PyInt 1)] None
       (example_settings\<lparr>ssm := Some (\<lambda>name. OtherFailure)\<rparr>) =
     Raised BotoCoreError (example_settings\<lparr>ssm := Some (\<lambda>name. OtherFailure)\<rparr>) \<and>
   load (example_world []
       [(''default'', TomlTable [(''api_key'', TomlString ''public'')]),
        (''dev'', TomlTable [(''api_key'', TomlString ''ssm:/data/test/other'')])])
     ''example.toml'' example_settings =
     Done (example_settings\<lparr>store := [(''api_key'', PyStr ''public'')],
       logged := [(ERROR, ''ParameterNotFound'')]\<rparr>)"
  by (simp add: load_def example_world_def clear_def example_settings_def items_of_def
      set_value_from_config.simps truthy_def is_interpolation_def is_ssm_def str_of_def
      set_attr_def to_builtin_def set_from_ssm_def example_ssm_def logger_call_def)

text \<open>
  Claim C8, amended. With \<^verbatim>\<open>boto3\<close> available, when the fetch of an \<^verbatim>\<open>ssm:\<close> reference fails
  with botocore's \<^verbatim>\<open>ClientError\<close> (parameter not found, access denied, throttling), the
  error is logged at level \<^verbatim>\<open>ERROR\<close>, nothing is raised and nothing is written: the store
  is as it was, so the key stays unset unless something set it before, and the loop goes
  on with the items that follow.
\<close>

theorem ssm_client_error_is_logged_and_skipped:
  assumes "str_of value = Some s" and "prefix ''ssm:'' s"
    and "\<not> env_override w name parent" and "boto_available w"
    and "ssm self = Some get_parameter"
    and "get_parameter (remove_all ''ssm:'' s) = ClientError e"
  shows "set_value_from_config w name value parent self =
           Done (self\<lparr>logged := logged self @ [(ERROR, e)]\<rparr>) \<and>
         store (state_of (set_value_from_config w name value parent self)) = store self \<and>
         stored (state_of (set_value_from_config w name value parent self)) parent name =
           stored self parent name \<and>
         set_items w ((name, value) # rest) parent self =
           set_items w rest parent (self\<lparr>logged := logged self @ [(ERROR, e)]\<rparr>)"
proof -
  have "set_value_from_config w name value parent self = set_from_ssm w name value parent self"
    using assms(3) ssm_not_interpolation [OF assms(1,2)] assms(1)
    by (simp add: svfc_no_override str_not_items)
  then have "set_value_from_config w name value parent self =
      Done (self\<lparr>logged := logged self @ [(ERROR, e)]\<rparr>)"
    using assms by (simp add: set_from_ssm_def logger_call_def)
  then show ?thesis
    by (simp add: state_of_def stored_def)
qed

theorem ssm_client_error_is_logged_and_skipped_witness:
  "str_of (TomlString ''ssm:/data/test/other'') = Some ''ssm:/data/test/other'' \<and>
   prefix ''ssm:'' ''ssm:/data/test/other'' \<and>
   \<not> env_override (example_world [] []) ''ssm_var'' None \<and>
   boto_available (example_world [] []) \<and>
   ssm example_settings = Some example_ssm \<and>
   example_ssm (remove_all ''ssm:'' ''ssm:/data/test/other'') = ClientError ''ParameterNotFound'' \<and>
   set_value_from_config (example_world [] []) ''ssm_var'' (TomlString ''ssm:/data/test/other'')
       None example_settings =
     Done (example_settings\<lparr>logged := [(ERROR, ''ParameterNotFound'')]\<rparr>) \<and>
   stored (state_of (set_value_from_config (example_world [] []) ''ssm_var''
       (TomlString ''ssm:/data/test/other'') None example_settings)) None ''ssm_var'' = None \<and>
   set_items (example_world [] [])
       [(''ssm_var'', TomlString ''ssm:/data/test/other''), (''later'', PyInt 1)] None
       example_settings =
     Done (example_settings\<lparr>store := [(''later'', PyInt 1)],
       logged := [(ERROR, ''ParameterNotFound'')]\<rparr>)"
proof -
  let ?w = "example_world [] []"
  have a: "str_of (TomlString ''ssm:/data/test/other'') = Some ''ssm:/data/test/other''"
    by (simp add: str_of_def)
  have b: "prefix ''ssm:'' ''ssm:/data/test/other''"
    by simp
  have c: "\<not> env_override ?w ''ssm_var'' None"
    by (simp add: env_override_def truthy_def example_world_def)
  have d: "boto_available ?w"
    by (simp add: example_world_def)
  have e: "ssm example_settings = Some example_ssm"
    by (simp add: example_settings_def)
  have f: "example_ssm (remove_all ''ssm:'' ''ssm:/data/test/other'') =
      ClientError ''ParameterNotFound''"
    by (simp add: example_ssm_def)
  have g: "set_items ?w [(''later'', PyInt 1)] None
      (example_settings\<lparr>logged := logged example_settings @ [(ERROR, ''ParameterNotFound'')]\<rparr>) =
      Done (example_settings\<lparr>store := [(''later'', PyInt 1)],
       logged := [(ERROR, ''ParameterNotFound'')]\<rparr>)"
    by (simp add: set_value_from_config.simps example_world_def truthy_def items_of_def
        is_interpolation_def is_ssm_def str_of_def set_attr_def to_builtin_def example_settings_def)
  have h: "stored example_settings None ''ssm_var'' = None"
    by (simp add: stored_def truthy_def example_settings_def)
  have i: "logged example_settings = []"
    by (simp add: example_settings_def)
  note skipped = ssm_client_error_is_logged_and_skipped [OF a b c d e f,
      where rest = "[(''later'', PyInt 1)]"]
  have r1: "set_value_from_config ?w ''ssm_var'' (TomlString ''ssm:/data/test/other'')
       None example_settings =
     Done (example_settings\<lparr>logged := [(ERROR, ''ParameterNotFound'')]\<rparr>)"
    using skipped [THEN conjunct1] i by simp
  have r2: "stored (state_of (set_value_from_config ?w ''ssm_var''
       (TomlString ''ssm:/data/test/other'') None example_settings)) None ''ssm_var'' = None"
    using skipped [THEN conjunct2, THEN conjunct2, THEN conjunct1] h by (rule trans)
  have r3: "set_items ?w
       [(''ssm_var'', TomlString ''ssm:/data/test/other''), (''later'', PyInt 1)] None
       example_settings =
     Done (example_settings\<lparr>store := [(''later'', PyInt 1)],
       logged := [(ERROR, ''ParameterNotFound'')]\<rparr>)"
    using skipped [THEN conjunct2, THEN conjunct2, THEN conjunct2] g by (rule trans)
  show ?thesis
    by (intro conjI a b c d e f r1 r2 r3)
qed

section \<open>Mapping access and attribute access\<close>

text \<open>
  Claim C10. A key that is in the store with the value \<^verbatim>\<open>None\<close> (what an unset \<^verbatim>\<open>${FOO}\<close>
  leaves behind) makes \<^verbatim>\<open>settings[key]\<close> raise \<^verbatim>\<open>KeyError\<close> although the key exists:
  \<^verbatim>\<open>__getitem__\<close> tests the value it looked up against \<^verbatim>\<open>None\<close>, not the membership of
  the key. Attribute access on the store finds the key and returns \<^verbatim>\<open>None\<close>, unless the
  name is one of \<^verbatim>\<open>Box\<close>'s own.
\<close>

theorem getitem_of_null_value:
  assumes "map_of (store self) key = Some PyNone"
  shows "getitem self key = Inl KeyError \<and> key \<in> fst ` set (store self) \<and>
         (key \<notin> set (box_attributes w) \<longrightarrow>
            box_getattr w (store self) key = Inr (ValAttr PyNone))"
  using assms by (auto simp: getitem_def box_getattr_def dest: map_of_SomeD intro: rev_image_eqI)

theorem getitem_of_null_value_witness:
  "map_of (store (state_of (set_value_from_config (example_world [] []) ''env_var''
      (PyStr ''${SOME_ENV_VAR}'') None example_settings))) ''env_var'' = Some PyNone \<and>
   ''env_var'' \<notin> set (box_attributes (example_world [] [])) \<and>
   getitem (state_of (set_value_from_config (example_world [] []) ''env_var''
      (PyStr ''${SOME_ENV_VAR}'') None example_settings)) ''env_var'' = Inl KeyError \<and>
   box_getattr (example_world [] []) (store (state_of (set_value_from_config
      (example_world [] []) ''env_var'' (PyStr ''${SOME_ENV_VAR}'') None example_settings)))
      ''env_var'' = Inr (ValAttr PyNone)"
proof -
  let ?self = "state_of (set_value_from_config (example_world [] []) ''env_var''
      (PyStr ''${SOME_ENV_VAR}'') None example_settings)"
  have "set_value_from_config (example_world [] []) ''env_var''
      (PyStr ''${SOME_ENV_VAR}'') None example_settings =
      Done (example_settings\<lparr>store := [(''env_var'', PyNone)]\<rparr>)"
    by (simp add: set_value_from_config.simps example_world_def truthy_def is_interpolation_def
        str_of_def set_from_env_var_interpolation_def set_attr_def to_builtin_def
        example_settings_def suffix_def)
  then have a: "map_of (store ?self) ''env_var'' = Some PyNone"
    by (simp add: state_of_def)
  have b: "''env_var'' \<notin> set (box_attributes (example_world [] []))"
    by (simp add: example_world_def example_box_attributes_def example_object_attributes_def)
  show ?thesis
    using getitem_of_null_value [OF a, of "example_world [] []"] a b by simp
qed

text \<open>
  Claim C4, as stated, fails: on a fresh \<^verbatim>\<open>Settings\<close> the absent key \<^verbatim>\<open>fake_var\<close> makes
  mapping access raise \<^verbatim>\<open>KeyError\<close>, and attribute access does not return \<^verbatim>\<open>None\<close>: it
  raises \<^verbatim>\<open>AttributeError\<close>.
\<close>

theorem missing_attribute_counterexample:
  "map_of (store example_settings) ''fake_var'' = None \<and>
   getitem example_settings ''fake_var'' = Inl KeyError \<and>
   getattr (example_world [] []) example_settings ''fake_var'' = Inl AttributeError \<and>
   getattr (example_world [] []) example_settings ''fake_var'' \<noteq> Inr (ValAttr PyNone)"
  by (simp add: example_settings_def getitem_def getattr_def dunder_getattr_def box_getattr_def
      INTERNAL_ATTRS_def SETTINGS_ATTRS_def example_world_def example_box_attributes_def
      example_object_attributes_def example_conversion_def)

text \<open>
  Claim C4, amended. Take a name that is absent from the store and that attribute lookup
  does not resolve elsewhere: it is not one of the three internal fields, not an attribute
  of the class \<^verbatim>\<open>Settings\<close> or of \<^verbatim>\<open>object\<close> (\<^verbatim>\<open>load\<close>, \<^verbatim>\<open>keys\<close>, ...), not an attribute of
  \<^verbatim>\<open>Box\<close> (\<^verbatim>\<open>get\<close>, \<^verbatim>\<open>to_dict\<close>, ...), and no stored key converts to it. On the same
  instance mapping access raises \<^verbatim>\<open>KeyError\<close> and attribute access raises
  \<^verbatim>\<open>AttributeError\<close>; hence \<^verbatim>\<open>hasattr\<close> is false for it.
\<close>

theorem missing_key_access:
  assumes "map_of (store self) key = None" and "key \<notin> set INTERNAL_ATTRS"
    and "key \<notin> set SETTINGS_ATTRS" and "key \<notin> set (object_attributes w)"
    and "key \<notin> set (box_attributes w)"
    and "box_conversion w (map fst (store self)) key = None"
  shows "getitem self key = Inl KeyError \<and> getattr w self key = Inl AttributeError \<and>
         \<not> hasattr w self key"
  using assms
  by (simp add: getitem_def getattr_def dunder_getattr_def box_getattr_def hasattr_def)

theorem missing_key_access_witness:
  "map_of (store (example_settings\<lparr>store := [(''project-name'', PyStr ''configur'')]\<rparr>))
     ''fake_var'' = None \<and>
   ''fake_var'' \<notin> set INTERNAL_ATTRS \<and> ''fake_var'' \<notin> set SETTINGS_ATTRS \<and>
   ''fake_var'' \<notin> set (object_attributes (example_world [] [])) \<and>
   ''fake_var'' \<notin> set (box_attributes (example_world [] [])) \<and>
   box_conversion (example_world [] [])
     (map fst (store (example_settings\<lparr>store := [(''project-name'', PyStr ''configur'')]\<rparr>)))
     ''fake_var'' = None \<and>
   getitem (example_settings\<lparr>store := [(''project-name'', PyStr ''configur'')]\<rparr>) ''fake_var'' =
     Inl KeyError \<and>
   getattr (example_world [] [])
     (example_settings\<lparr>store := [(''project-name'', PyStr ''configur'')]\<rparr>) ''fake_var'' =
     Inl AttributeError \<and>
   \<not> hasattr (example_world [] [])
     (example_settings\<lparr>store := [(''project-name'', PyStr ''configur'')]\<rparr>) ''fake_var''"
proof -
  let ?self = "example_settings\<lparr>store := [(''project-name'', PyStr ''configur'')]\<rparr>"
  let ?w = "example_world [] []"
  have a: "map_of (store ?self) ''fake_var'' = None"
    by simp
  have b: "''fake_var'' \<notin> set INTERNAL_ATTRS"
    by (simp add: INTERNAL_ATTRS_def)
  have c: "''fake_var'' \<notin> set SETTINGS_ATTRS"
    by (simp add: SETTINGS_ATTRS_def)
  have d: "''fake_var'' \<notin> set (object_attributes ?w)"
    by (simp add: example_world_def example_object_attributes_def)
  have e: "''fake_var'' \<notin> set (box_attributes ?w)"
    by (simp add: example_world_def example_box_attributes_def example_object_attributes_def)
  have f: "box_conversion ?w (map fst (store ?self)) ''fake_var'' = None"
    by (simp add: example_world_def example_conversion_def)
  show ?thesis
    using missing_key_access [OF a b c d e f] a b c d e f by simp
qed

text \<open>The names that the amended claim leaves out do return: \<^verbatim>\<open>settings.get\<close> is the method
  of the \<^verbatim>\<open>Box\<close>, \<^verbatim>\<open>settings.keys\<close> the method of \<^verbatim>\<open>Settings\<close>, and \<^verbatim>\<open>settings.project_name\<close>
  finds the key \<^verbatim>\<open>project-name\<close> through the conversion.\<close>

lemma resolved_elsewhere:
  "getattr (example_world [] []) example_settings ''get'' = Inr (ClassAttr OfBox ''get'')"
  "getattr (example_world [] []) example_settings ''keys'' = Inr (ClassAttr OfSettings ''keys'')"
  "getattr (example_world [] [])
     (example_settings\<lparr>store := [(''project-name'', PyStr ''configur'')]\<rparr>) ''project_name'' =
     Inr (ValAttr (PyStr ''configur''))"
  by (simp_all add: getattr_def dunder_getattr_def box_getattr_def INTERNAL_ATTRS_def
      SETTINGS_ATTRS_def example_world_def example_box_attributes_def
      example_object_attributes_def example_conversion_def example_settings_def)

section \<open>Failures of load\<close>

text \<open>
  Claim C5, as stated, fails: when the path does not exist, \<^verbatim>\<open>load\<close> raises \<^verbatim>\<open>OSError\<close>
  before it clears anything, and the key \<^verbatim>\<open>test\<close> set earlier is still readable.
\<close>

theorem failed_load_counterexample:
  "load (example_world [] []) ''fake_file.toml'' (example_settings\<lparr>store := [(''test'', PyInt 123)]\<rparr>) =
     Raised OSError (example_settings\<lparr>store := [(''test'', PyInt 123)]\<rparr>) \<and>
   getitem (state_of (load (example_world [] []) ''fake_file.toml''
     (example_settings\<lparr>store := [(''test'', PyInt 123)]\<rparr>))) ''test'' = Inr (PyInt 123)"
  by (simp add: load_def example_world_def state_of_def getitem_def example_settings_def)

text \<open>
  Claim C5, amended. When the path does not exist \<^verbatim>\<open>load\<close> raises \<^verbatim>\<open>OSError\<close> and leaves
  the settings exactly as they were. When the file parses and has no entry \<^verbatim>\<open>default\<close>,
  \<^verbatim>\<open>load\<close> raises the missing-section exception after the reset: the store is empty and
  no key of an earlier load can be read.
\<close>

theorem load_failures:
  "(files w path = Missing \<longrightarrow> load w path self = Raised OSError self) \<and>
   (files w path = Document settings_data \<and> map_of settings_data ''default'' = None \<longrightarrow>
      load w path self = Raised PlainException (clear self) \<and>
      store (state_of (load w path self)) = [] \<and>
      (\<forall>key. getitem (state_of (load w path self)) key = Inl KeyError))"
  by (simp add: load_def clear_def state_of_def getitem_def)

theorem load_failures_witness:
  "files (example_world [] []) ''fake_file.toml'' = Missing \<and>
   load (example_world [] []) ''fake_file.toml'' (example_settings\<lparr>store := [(''test'', PyInt 123)]\<rparr>) =
     Raised OSError (example_settings\<lparr>store := [(''test'', PyInt 123)]\<rparr>) \<and>
   files (example_world [] [(''dev'', TomlTable [])]) ''example.toml'' =
     Document [(''dev'', TomlTable [])] \<and>
   map_of [(''dev'', TomlTable [])] ''default'' = None \<and>
   load (example_world [] [(''dev'', TomlTable [])]) ''example.toml''
       (example_settings\<lparr>store := [(''test'', PyInt 123)]\<rparr>) =
     Raised PlainException example_settings"
proof -
  let ?self = "example_settings\<lparr>store := [(''test'', PyInt 123)]\<rparr>"
  have a: "files (example_world [] []) ''fake_file.toml'' = Missing"
    by (simp add: example_world_def)
  have b: "files (example_world [] [(''dev'', TomlTable [])]) ''example.toml'' =
     Document [(''dev'', TomlTable [])]"
    by (simp add: example_world_def)
  have c: "map_of [(''dev'', TomlTable [])] ''default'' = None"
    by simp
  have d: "clear ?self = example_settings"
    by (simp add: clear_def example_settings_def)
  show ?thesis
    using load_failures [where w = "example_world [] []" and path = "''fake_file.toml''"
        and self = ?self]
      load_failures [where w = "example_world [] [(''dev'', TomlTable [])]"
        and path = "''example.toml''" and settings_data = "[(''dev'', TomlTable [])]"
        and self = ?self] a b c d
    by simp
qed

section \<open>References to environment variables\<close>

lemma until_brace_closing:
  assumes "CHR ''}'' \<notin> set n" and "CHR 0x0A \<notin> set n"
  shows "until_brace (n @ CHR ''}'' # rest) = Some n"
  using assms by (induction n) auto

lemma findall_first_reference:
  assumes "CHR ''}'' \<notin> set n" and "CHR 0x0A \<notin> set n"
  shows "findall_first (''${'' @ n @ ''}'') = Some n"
  using until_brace_closing [OF assms, of "[]"] by simp

lemma reference_is_interpolation:
  "str_of value = Some (''${'' @ n @ ''}'') \<Longrightarrow> is_interpolation value"
  by (simp add: is_interpolation_def suffix_def)

lemma svfc_interpolation:
  assumes "str_of value = Some (''${'' @ FOO @ ''}'')"
    and "CHR ''}'' \<notin> set FOO" and "CHR 0x0A \<notin> set FOO"
    and "\<not> env_override w name parent"
  shows "set_value_from_config w name value parent self =
           set_attr name (getenv w FOO) parent self"
proof -
  have "set_value_from_config w name value parent self =
          set_from_env_var_interpolation w name value parent self"
    using assms(1,4) by (simp add: svfc_no_override str_not_items reference_is_interpolation)
  also have "\<dots> = set_attr name (getenv w FOO) parent self"
    using assms(1) findall_first_reference [OF assms(2,3)]
    by (simp add: set_from_env_var_interpolation_def getenv_def)
  finally show ?thesis .
qed

lemma to_box_getenv: "to_box (to_builtin (getenv w key)) = getenv w key"
  by (simp add: getenv_def to_builtin_def split: option.splits)

text \<open>
  Claim C6. A key whose raw value is the string \<^verbatim>\<open>${FOO}\<close>, where \<open>FOO\<close> has no closing
  brace and no line feed, and that no environment variable overrides, is written without
  an exception, and what is read back under the key is the value of the environment
  variable \<open>FOO\<close> when it is set and \<^verbatim>\<open>None\<close> when it is not: what is stored comes from
  the environment, never from the raw text of the reference.
\<close>

theorem interpolation_resolves:
  assumes "str_of value = Some (''${'' @ FOO @ ''}'')"
    and "CHR ''}'' \<notin> set FOO" and "CHR 0x0A \<notin> set FOO"
    and "\<not> env_override w name parent" and "writable parent self"
  shows "\<exists>self'. set_value_from_config w name value parent self = Done self' \<and>
           stored self' parent name =
             Some (case environ w FOO of Some text \<Rightarrow> PyStr text | None \<Rightarrow> PyNone)"
proof -
  obtain self' where "set_attr name (getenv w FOO) parent self = Done self'"
    and "stored self' parent name = Some (to_box (to_builtin (getenv w FOO)))"
    using set_attr_writable [OF assms(5)] by blast
  then show ?thesis
    using svfc_interpolation [OF assms(1-4), of self]
    by (auto simp: getenv_def to_builtin_def split: option.splits)
qed

theorem interpolation_resolves_witness:
  "str_of (TomlString ''${FOO}'') = Some (''${'' @ ''FOO'' @ ''}'') \<and>
   CHR ''}'' \<notin> set ''FOO'' \<and> CHR 0x0A \<notin> set ''FOO'' \<and>
   \<not> env_override (example_world [(''FOO'', ''abc'')] []) ''key'' None \<and>
   \<not> env_override (example_world [] []) ''key'' (Some ''table'') \<and>
   writable None example_settings \<and> writable (Some ''table'') example_settings \<and>
   (\<exists>self'. set_value_from_config (example_world [(''FOO'', ''abc'')] []) ''key''
        (TomlString ''${FOO}'') None example_settings = Done self' \<and>
      stored self' None ''key'' = Some (PyStr ''abc'')) \<and>
   (\<exists>self'. set_value_from_config (example_world [] []) ''key''
        (TomlString ''${FOO}'') (Some ''table'') example_settings = Done self' \<and>
      stored self' (Some ''table'') ''key'' = Some PyNone)"
proof -
  have a: "str_of (TomlString ''${FOO}'') = Some (''${'' @ ''FOO'' @ ''}'')"
    by (simp add: str_of_def)
  have b: "CHR ''}'' \<notin> set ''FOO''" and c: "CHR 0x0A \<notin> set ''FOO''"
    by simp_all
  have d: "\<not> env_override (example_world [(''FOO'', ''abc'')] []) ''key'' None"
    by (simp add: env_override_def truthy_def example_world_def upper_def upper_char_def)
  have d': "\<not> env_override (example_world [] []) ''key'' (Some ''table'')"
    by (simp add: env_override_def truthy_def example_world_def)
  have e: "writable None example_settings" and e': "writable (Some ''table'') example_settings"
    by (simp_all add: writable_def truthy_def example_settings_def)
  show ?thesis
    using interpolation_resolves [OF a b c d e] interpolation_resolves [OF a b c d' e'] a b c d d' e e'
    by (simp add: example_world_def)
qed

section \<open>Environment variables over nested keys\<close>

lemma svfc_parent_override:
  assumes "p \<noteq> []" and "environ w (upper p @ ''_'' @ upper child) = Some s"
  shows "set_value_from_config w child value (Some p) self =
           set_from_parent_env_var w child value (Some p) self"
  using assms by (simp add: set_value_from_config.simps truthy_def)

text \<open>Text without a decimal digit is never an integer for \<^verbatim>\<open>int\<close>.\<close>

lemma set_strip: "set (strip s) \<subseteq> set s"
proof
  fix c
  assume "c \<in> set (strip s)"
  then have "c \<in> set (dropWhile is_space (rev (dropWhile is_space s)))"
    by (simp add: strip_def)
  then have "c \<in> set (rev (dropWhile is_space s))"
    by (rule set_dropWhileD)
  then have "c \<in> set (dropWhile is_space s)"
    by simp
  then show "c \<in> set s"
    by (rule set_dropWhileD)
qed

lemma unsigned_without_digit:
  assumes "\<forall>c \<in> set s. digit_of c = None"
  shows "unsigned s = None"
  using assms by (cases s) (simp_all add: unsigned_def)

lemma py_int_without_digit:
  assumes "\<forall>c \<in> set s. digit_of c = None"
  shows "py_int s = None"
proof (cases "strip s")
  case Nil
  then show ?thesis by (simp add: py_int_def)
next
  case (Cons c cs)
  have "\<forall>c \<in> set (c # cs). digit_of c = None"
    using assms set_strip [of s] unfolding Cons [symmetric] by blast
  then have "unsigned (c # cs) = None" and "unsigned cs = None"
    by (simp_all add: unsigned_without_digit)
  then show ?thesis
    by (simp add: py_int_def Cons)
qed

text \<open>
  Claim C3. For a nested key \<open>child\<close> under a parent \<open>p\<close>, with the environment variable
  \<^verbatim>\<open>UPPER(p)_UPPER(child)\<close> set to \<open>s\<close>: a raw value of type \<^verbatim>\<open>bool\<close> resolves to the
  boolean that tells whether \<open>s\<close> is \<^verbatim>\<open>true\<close> up to case (so \<^verbatim>\<open>false\<close> over a raw
  \<^verbatim>\<open>True\<close> gives \<^verbatim>\<open>False\<close>); a raw value of integer type, when \<^verbatim>\<open>int(s)\<close> fails, raises
  nothing and resolves to the string \<open>s\<close> itself.
\<close>

theorem parent_env_var_cast:
  assumes "p \<noteq> []" and "environ w (upper p @ ''_'' @ upper child) = Some s"
    and "writable (Some p) self"
  shows "(\<exists>self'. set_value_from_config w child (PyBool b) (Some p) self = Done self' \<and>
            stored self' (Some p) child = Some (PyBool (lower s = ''true''))) \<and>
         (py_int s = None \<longrightarrow>
            (\<exists>self'. set_value_from_config w child (TomlInteger i) (Some p) self = Done self' \<and>
               stored self' (Some p) child = Some (PyStr s)) \<and>
            (\<exists>self'. set_value_from_config w child (PyInt i) (Some p) self = Done self' \<and>
               stored self' (Some p) child = Some (PyStr s)))"
proof -
  have bool: "set_value_from_config w child (PyBool b) (Some p) self =
      set_attr child (PyBool (lower s = ''true'')) (Some p) self"
    using assms(2) by (simp add: svfc_parent_override [OF assms(1,2)] set_from_parent_env_var_def cast_def)
  have int: "set_value_from_config w child v (Some p) self =
      set_attr child (PyStr s) (Some p) (logger_call INFO (cast_message p child (Some s) v) self)"
    if "py_int s = None" and "v = TomlInteger i \<or> v = PyInt i" for v
    using that assms(2)
    by (auto simp: svfc_parent_override [OF assms(1,2)] set_from_parent_env_var_def cast_def)
  have logged_too: "writable (Some p) (logger_call INFO m self)" for m
    using assms(3) by (simp add: writable_logger_call)
  show ?thesis
    using set_attr_writable [OF assms(3), of child "PyBool (lower s = ''true'')"]
      set_attr_writable [OF logged_too, of child "PyStr s"] bool int
    by (auto simp: to_builtin_def)
qed

theorem parent_env_var_cast_witness:
  "''parent'' \<noteq> [] \<and>
   environ (example_world [(''PARENT_CHILD'', ''false'')] []) (upper ''parent'' @ ''_'' @ upper ''child'') = Some ''false'' \<and>
   environ (example_world [(''PARENT_CHILD'', ''abc'')] []) (upper ''parent'' @ ''_'' @ upper ''child'') = Some ''abc'' \<and>
   writable (Some ''parent'') example_settings \<and> py_int ''abc'' = None \<and>
   (\<exists>self'. set_value_from_config (example_world [(''PARENT_CHILD'', ''false'')] []) ''child''
        (PyBool True) (Some ''parent'') example_settings = Done self' \<and>
      stored self' (Some ''parent'') ''child'' = Some (PyBool False)) \<and>
   (\<exists>self'. set_value_from_config (example_world [(''PARENT_CHILD'', ''abc'')] []) ''child''
        (PyInt 123) (Some ''parent'') example_settings = Done self' \<and>
      stored self' (Some ''parent'') ''child'' = Some (PyStr ''abc''))"
proof -
  have a: "''parent'' \<noteq> []"
    by simp
  have b: "environ (example_world [(''PARENT_CHILD'', ''false'')] [])
      (upper ''parent'' @ ''_'' @ upper ''child'') = Some ''false''"
    and b': "environ (example_world [(''PARENT_CHILD'', ''abc'')] [])
      (upper ''parent'' @ ''_'' @ upper ''child'') = Some ''abc''"
    by (simp_all add: example_world_def upper_def upper_char_def)
  have c: "writable (Some ''parent'') example_settings"
    by (simp add: writable_def truthy_def example_settings_def)
  have d: "py_int ''abc'' = None"
    by (simp add: py_int_def strip_def is_space_def unsigned_def digit_of_def)
  have e: "lower ''false'' \<noteq> ''true''"
    by (simp add: lower_def lower_char_def)
  show ?thesis
    using parent_env_var_cast [OF a b c, of True]
      parent_env_var_cast [OF a b' c, where i = 123] a b b' c d e
    by simp
qed

section \<open>Nested tables\<close>

text \<open>The sibling path: a nested mapping handed to \<^verbatim>\<open>set_attr\<close> in one piece keeps its
  nesting at every depth.\<close>

lemma set_attr_keeps_nesting:
  "set_attr ''a'' (TomlTable [(''b'', TomlTable [(''c'', PyInt 1)])]) None example_settings =
     Done (example_settings\<lparr>store := [(''a'', Box [(''b'', Box [(''c'', PyInt 1)])])]\<rparr>)"
  by (simp add: set_attr_def truthy_def to_builtin_def example_settings_def)

text \<open>
  Claim C9 against the code, at the file
  \<^verbatim>\<open>[default]\<close>, \<^verbatim>\<open>[dev.a.b]\<close>, \<^verbatim>\<open>c = 1\<close> loaded for the environment \<^verbatim>\<open>dev\<close>. The claim
  puts the value under the chain \<^verbatim>\<open>a.b.c\<close>. The recursion of
  \<^verbatim>\<open>_set_value_from_config\<close> hands down the name of the immediate parent only, so the
  value lands under \<^verbatim>\<open>b.c\<close> at the root of the store, and the store has no key \<^verbatim>\<open>a\<close>.
\<close>

theorem nested_table_chain_lost:
  "load (example_world []
       [(''default'', TomlTable []),
        (''dev'', TomlTable [(''a'', TomlTable [(''b'', TomlTable [(''c'', TomlInteger 1)])])])])
     ''example.toml'' example_settings =
     Done (example_settings\<lparr>store := [(''b'', Box [(''c'', PyInt 1)])]\<rparr>) \<and>
   getattr (example_world [] []) (example_settings\<lparr>store := [(''b'', Box [(''c'', PyInt 1)])]\<rparr>)
     ''a'' = Inl AttributeError"
  by (simp add: load_def example_world_def clear_def example_settings_def items_of_def
      set_value_from_config.simps truthy_def is_interpolation_def is_ssm_def str_of_def
      set_attr_def to_builtin_def getattr_def dunder_getattr_def box_getattr_def
      INTERNAL_ATTRS_def SETTINGS_ATTRS_def example_box_attributes_def
      example_object_attributes_def example_conversion_def)

section \<open>What a resolution leaves alone\<close>

declare leaves.simps [simp del]

lemma keeps_same: "keeps W self (Done self)" "keeps W self (Raised e self)"
  by (simp_all add: keeps_def state_of_def)

lemma keeps_mono: "keeps W self r \<Longrightarrow> W \<subseteq> W' \<Longrightarrow> keeps W' self r"
  unfolding keeps_def by blast

lemma keeps_then:
  assumes "keeps W self (Done mid)" and "keeps W' mid r"
  shows "keeps (W \<union> W') self r"
  using assms by (simp add: keeps_def state_of_def)

lemma keeps_logger_call:
  assumes "keeps W (logger_call lvl m self) r"
  shows "keeps W self r"
  using assms by (simp add: keeps_def stored_logger_call) (simp add: logger_call_def)

lemma keeps_logged: "keeps W self (Done (logger_call lvl m self))"
  by (rule keeps_logger_call [of _ lvl m]) (rule keeps_same)

lemma stored_root_write:
  assumes "\<not> clash (name, None) (place name' parent')"
  shows "stored (self\<lparr>store := AList.update name v (store self)\<rparr>) parent' name' =
         stored self parent' name'"
  using assms by (auto simp: stored_def place_def clash_def map_of_update_other)

lemma stored_nested_write:
  assumes "\<not> clash (p, Some name) (place name' parent')"
    and "map_of st p = Some (Box kvs) \<or> map_of st p = None \<and> kvs = []"
  shows "stored (self\<lparr>store := AList.update p (Box (AList.update name v kvs)) st\<rparr>) parent' name' =
         stored (self\<lparr>store := st\<rparr>) parent' name'"
proof (cases "truthy parent'")
  case False
  then have "name' \<noteq> p"
    using assms(1) by (auto simp: place_def clash_def)
  then show ?thesis
    using False by (simp add: stored_def map_of_update_other)
next
  case True
  show ?thesis
  proof (cases "the parent' = p")
    case False
    then show ?thesis
      using True by (simp add: stored_def map_of_update_other)
  next
    case same: True
    then have "name' \<noteq> name"
      using assms(1) True by (auto simp: place_def clash_def)
    then show ?thesis
      using True same assms(2)
      by (auto simp: stored_def map_of_update_same map_of_update_other)
  qed
qed

lemma set_attr_nested:
  assumes "truthy parent"
  shows "set_attr name value parent self =
     (case map_of (store self) (the parent) of
        None \<Rightarrow>
          Done (self\<lparr>store := AList.update (the parent)
            (Box (AList.update name (to_box (to_builtin value)) []))
            (AList.update (the parent) (Box []) (store self))\<rparr>)
      | Some (Box kvs) \<Rightarrow>
          Done (self\<lparr>store := AList.update (the parent)
            (Box (AList.update name (to_box (to_builtin value)) kvs)) (store self)\<rparr>)
      | Some _ \<Rightarrow> Raised TypeError self)"
  using assms
  by (simp add: set_attr_def map_of_update_same split: option.splits val.splits)

lemma update_twice: "map_of (AList.update k v (AList.update k u al)) = map_of (AList.update k v al)"
  by (rule ext) (simp add: update_conv')

lemma stored_same_map:
  assumes "map_of st = map_of st'"
  shows "stored (self\<lparr>store := st\<rparr>) parent name = stored (self\<lparr>store := st'\<rparr>) parent name"
  using assms by (simp add: stored_def)

lemma keeps_set_attr: "keeps {place name parent} self (set_attr name value parent self)"
proof (cases "truthy parent")
  case False
  then show ?thesis
    by (simp add: keeps_def set_attr_root state_of_def place_def stored_root_write)
next
  case True
  define p where "p = the parent"
  define v where "v = to_box (to_builtin value)"
  have here: "place name parent = (p, Some name)"
    using True by (simp add: place_def p_def)
  show ?thesis
  proof (cases "map_of (store self) p")
    case None
    have "stored (self\<lparr>store := AList.update p (Box (AList.update name v []))
          (AList.update p (Box []) (store self))\<rparr>) parent' name' = stored self parent' name'"
      if "\<not> clash (p, Some name) (place name' parent')" for parent' name'
    proof -
      have "stored (self\<lparr>store := AList.update p (Box (AList.update name v []))
          (AList.update p (Box []) (store self))\<rparr>) parent' name' =
          stored (self\<lparr>store := AList.update p (Box (AList.update name v [])) (store self)\<rparr>)
            parent' name'"
        by (rule stored_same_map) (rule update_twice)
      also have "\<dots> = stored (self\<lparr>store := store self\<rparr>) parent' name'"
        using that None by (intro stored_nested_write) simp_all
      finally show ?thesis by simp
    qed
    then show ?thesis
      using True None
      by (simp add: keeps_def set_attr_nested state_of_def here p_def [symmetric] v_def [symmetric])
  next
    case (Some b)
    show ?thesis
    proof (cases "\<exists>kvs. b = Box kvs")
      case False
      then have "set_attr name value parent self = Raised TypeError self"
        using True Some by (cases b) (simp_all add: set_attr_nested p_def [symmetric])
      then show ?thesis
        by (simp add: keeps_same)
    next
      case True
      then obtain kvs where b: "b = Box kvs" by blast
      have "stored (self\<lparr>store := AList.update p (Box (AList.update name v kvs)) (store self)\<rparr>)
          parent' name' = stored self parent' name'"
        if "\<not> clash (p, Some name) (place name' parent')" for parent' name'
        using stored_nested_write [OF that, where st = "store self" and kvs = kvs
            and self = self and v = v] Some b
        by simp
      then show ?thesis
        using \<open>truthy parent\<close> Some b
        by (simp add: keeps_def set_attr_nested state_of_def here p_def [symmetric] v_def [symmetric])
    qed
  qed
qed


lemma keeps_set_attr_logged:
  "keeps {place name parent} self (set_attr name value parent (logger_call lvl m self))"
  by (rule keeps_logger_call [of _ lvl m]) (rule keeps_set_attr)

lemma keeps_interpolation:
  "keeps {place name parent} self (set_from_env_var_interpolation w name value parent self)"
  by (simp add: set_from_env_var_interpolation_def keeps_same keeps_set_attr split: option.splits)

lemma keeps_parent_env_var:
  "keeps {place name parent} self (set_from_parent_env_var w name value parent self)"
  by (simp add: set_from_parent_env_var_def keeps_same keeps_set_attr keeps_set_attr_logged Let_def
      split: option.splits sum.splits)

lemma keeps_ssm: "keeps {place name parent} self (set_from_ssm w name value parent self)"
  by (simp add: set_from_ssm_def keeps_same keeps_set_attr keeps_logged
      split: option.splits ssm_reply.splits)


lemma svfc_override:
  assumes "env_override w name parent"
  shows "set_value_from_config w name value parent self =
     (if truthy parent then set_from_parent_env_var w name value parent self
      else set_attr name (getenv w (upper name)) parent self)"
  using assms by (auto simp: set_value_from_config.simps env_override_def)

lemma keeps_leaf:
  assumes "is_leaf w (name, value, parent)"
  shows "keeps {place name parent} self (set_value_from_config w name value parent self)"
proof (cases "env_override w name parent")
  case True
  then show ?thesis
    by (simp add: svfc_override keeps_parent_env_var keeps_set_attr)
next
  case False
  then have "items_of value = None"
    using assms by (simp add: is_leaf_def)
  then show ?thesis
    using False by (simp add: svfc_no_override keeps_interpolation keeps_ssm keeps_set_attr)
qed

section \<open>Resolution as a run over the items\<close>

lemma outcome_eta: "(case r of Done s \<Rightarrow> Done s | Raised e s \<Rightarrow> Raised e s) = r"
  by (cases r) simp_all

lemma run_items_single:
  "run_items w [(name, value, parent)] self = set_value_from_config w name value parent self"
  by (cases "set_value_from_config w name value parent self") simp_all

lemma run_items_append:
  "run_items w (xs @ ys) self =
     (case run_items w xs self of Done mid \<Rightarrow> run_items w ys mid | Raised e mid \<Rightarrow> Raised e mid)"
  by (induction xs arbitrary: self) (auto split: outcome.splits)

lemma run_leaves:
  "set_value_from_config w name value parent self = run_items w (leaves w name value parent) self"
  "set_items w kvs parent self = run_items w (leaves_items w kvs parent) self"
proof (induction w name "value" parent self and w kvs parent self
    rule: set_value_from_config_set_items.induct)
  case (1 w name "value" parent self)
  show ?case
  proof (cases "env_override w name parent")
    case True
    then show ?thesis
      by (simp add: leaves.simps run_items_single del: run_items.simps)
  next
    case no: False
    then have a: "\<not> (environ w (upper name) \<noteq> None \<and> \<not> truthy parent)"
      and b: "\<not> (truthy parent \<and> environ w (upper (the parent) @ ''_'' @ upper name) \<noteq> None)"
      by (auto simp: env_override_def)
    show ?thesis
    proof (cases "items_of value")
      case None
      then have "leaves w name value parent = [(name, value, parent)]"
        using no by (cases "value") (simp_all add: leaves.simps items_of_def)
      then show ?thesis
        by (simp add: run_items_single del: run_items.simps)
    next
      case (Some kvs)
      then have v: "value = PyDict kvs \<or> value = TomlTable kvs \<or> value = Box kvs"
        by (cases "value") (simp_all add: items_of_def)
      have "set_items w kvs (Some name) self = run_items w (leaves_items w kvs (Some name)) self"
        using v "1.IH"(1) [OF a b] "1.IH"(2) [OF a b] "1.IH"(3) [OF a b] by auto
      moreover have "leaves w name value parent = leaves_items w kvs (Some name)"
        using v no by (auto simp: leaves.simps)
      ultimately show ?thesis
        using Some by (simp add: svfc_no_override [OF no])
    qed
  qed
next
  case (2 w parent self)
  show ?case by simp
next
  case (3 w k v kvs parent self)
  show ?case
  proof (cases "set_value_from_config w k v parent self")
    case (Done mid)
    then show ?thesis
      using "3.IH"(1) "3.IH"(2) [OF Done] by (simp add: run_items_append)
  next
    case (Raised e mid)
    then show ?thesis
      using "3.IH"(1) by (simp add: run_items_append)
  qed
qed

lemma leaves_are_leaves:
  "item \<in> set (leaves w name value parent) \<Longrightarrow> is_leaf w item"
  "item \<in> set (leaves_items w kvs parent) \<Longrightarrow> is_leaf w item"
proof (induction w name "value" parent and w kvs parent rule: leaves_leaves_items.induct)
  case (1 w name "value" parent)
  show ?case
  proof (cases "env_override w name parent")
    case True
    then show ?thesis
      using "1.prems" by (simp add: leaves.simps is_leaf_def)
  next
    case False
    show ?thesis
    proof (cases "items_of value")
      case None
      then have "leaves w name value parent = [(name, value, parent)]"
        using False by (cases "value") (simp_all add: leaves.simps items_of_def)
      then show ?thesis
        using "1.prems" None by (simp add: is_leaf_def)
    next
      case (Some kvs)
      then have v: "value = PyDict kvs \<or> value = TomlTable kvs \<or> value = Box kvs"
        by (cases "value") (simp_all add: items_of_def)
      then have "item \<in> set (leaves_items w kvs (Some name))"
        using "1.prems" False by (auto simp: leaves.simps)
      then show ?thesis
        using v "1.IH"(1) [OF False] "1.IH"(2) [OF False] "1.IH"(3) [OF False] by auto
    qed
  qed
next
  case (2 w parent)
  then show ?case by simp
next
  case (3 w k v kvs parent)
  then show ?case by auto
qed

lemma applied_items_are_leaves: "item \<in> set (applied_items w tag doc) \<Longrightarrow> is_leaf w item"
proof (induction doc)
  case Nil
  then show ?case by simp
next
  case (Cons entry rest)
  obtain table items where entry: "entry = (table, items)"
    by (cases entry)
  show ?case
  proof (cases "prefix tag table \<or> table = ''default''")
    case False
    then have "item \<in> set (applied_items w tag rest)"
      using Cons.prems by (simp add: entry)
    then show ?thesis
      by (rule Cons.IH)
  next
    case True
    show ?thesis
    proof (cases "items_of items")
      case None
      then have "item \<in> set (applied_items w tag rest)"
        using Cons.prems True by (simp add: entry)
      then show ?thesis
        by (rule Cons.IH)
    next
      case (Some kvs)
      then have "item \<in> set (leaves_items w kvs None) \<or> item \<in> set (applied_items w tag rest)"
        using Cons.prems True by (simp add: entry)
      then show ?thesis
        using Cons.IH leaves_are_leaves(2) by blast
    qed
  qed
qed

lemma keeps_run:
  assumes "\<forall>item \<in> set ls. is_leaf w item"
  shows "keeps ((\<lambda>(n, v, p). place n p) ` set ls) self (run_items w ls self)"
  using assms
proof (induction ls arbitrary: self)
  case Nil
  show ?case by (simp add: keeps_same)
next
  case (Cons item ls)
  obtain n v p where item: "item = (n, v, p)"
    by (cases item)
  have first: "keeps {place n p} self (set_value_from_config w n v p self)"
    using Cons.prems by (simp add: item keeps_leaf)
  have rest: "keeps ((\<lambda>(n, v, p). place n p) ` set ls) mid (run_items w ls mid)" for mid
    using Cons.IH Cons.prems by simp
  show ?case
  proof (cases "set_value_from_config w n v p self")
    case (Done mid)
    have "keeps ({place n p} \<union> (\<lambda>(n, v, p). place n p) ` set ls) self (run_items w ls mid)"
      using first rest [of mid] unfolding Done by (rule keeps_then)
    then show ?thesis
      by (simp add: item Done)
  next
    case (Raised e mid)
    have "keeps ({place n p} \<union> (\<lambda>(n, v, p). place n p) ` set ls) self (Raised e mid)"
      using first unfolding Raised by (rule keeps_mono) simp
    then show ?thesis
      by (simp add: item Raised)
  qed
qed

lemma run_items_Done:
  assumes "run_items w (xs @ (n, v, p) # ys) self = Done out"
  shows "\<exists>a b. run_items w xs self = Done a \<and> set_value_from_config w n v p a = Done b \<and>
           run_items w ys b = Done out"
  using assms by (auto simp: run_items_append split: outcome.splits)

lemma load_tables_run:
  assumes "load_tables w doc self = Done out"
  shows "run_items w (applied_items w (env self) doc) self = Done out"
  using assms
proof (induction doc arbitrary: self)
  case Nil
  then show ?case by simp
next
  case (Cons entry rest)
  obtain table items where entry: "entry = (table, items)"
    by (cases entry)
  show ?case
  proof (cases "prefix (env self) table \<or> table = ''default''")
    case False
    then show ?thesis
      using Cons by (simp add: entry)
  next
    case True
    then obtain kvs mid where kvs: "items_of items = Some kvs"
      and mid: "set_items w kvs None self = Done mid"
      and tail: "load_tables w rest mid = Done out"
      using Cons.prems by (auto simp: entry split: option.splits outcome.splits)
    have run: "run_items w (leaves_items w kvs None) self = Done mid"
      using mid by (simp add: run_leaves(2))
    have "keeps ((\<lambda>(n, v, p). place n p) ` set (leaves_items w kvs None)) self
        (run_items w (leaves_items w kvs None) self)"
      by (rule keeps_run) (simp add: leaves_are_leaves(2))
    then have "env mid = env self"
      by (simp add: run keeps_def state_of_def)
    then have "run_items w (applied_items w (env self) rest) mid = Done out"
      using Cons.IH [OF tail] by simp
    then show ?thesis
      using True kvs run by (simp add: entry run_items_append)
  qed
qed


section \<open>What an item resolves to\<close>

lemma stored_empty: "store a = [] \<Longrightarrow> stored a parent name = None"
  by (simp add: stored_def)

lemma set_attr_Done_stored:
  assumes "set_attr name v parent s = Done s'"
  shows "stored s' parent name = Some (to_box (to_builtin v))"
proof (cases "truthy parent")
  case False
  then show ?thesis
    using assms by (auto simp: set_attr_root stored_def map_of_update_same)
next
  case True
  then show ?thesis
    using assms
    by (auto simp: set_attr_nested stored_def map_of_update_same split: option.splits val.splits)
qed

lemma set_attr_alone:
  assumes "store a = []"
    and "stored (state_of (set_attr name v parent a)) parent name = Some x"
    and "set_attr name v parent s = Done s'"
  shows "stored s' parent name = Some x"
proof -
  have "writable parent a"
    using assms(1) by (simp add: writable_def)
  then obtain a' where "set_attr name v parent a = Done a'"
    and "stored a' parent name = Some (to_box (to_builtin v))"
    using set_attr_writable by blast
  then have "x = to_box (to_builtin v)"
    using assms(2) by (simp add: state_of_def)
  then show ?thesis
    using set_attr_Done_stored [OF assms(3)] by simp
qed

lemma not_stored_alone:
  assumes "store a = []"
  shows "stored (state_of (Done a)) parent name \<noteq> Some x"
    and "stored (state_of (Raised e a)) parent name \<noteq> Some x"
    and "stored (state_of (Done (logger_call lvl m a))) parent name \<noteq> Some x"
  using assms by (simp_all add: state_of_def stored_empty stored_logger_call)

lemma interpolation_alone:
  assumes "store a = []"
    and "stored (state_of (set_from_env_var_interpolation w name value parent a)) parent name = Some x"
    and "set_from_env_var_interpolation w name value parent s = Done s'"
  shows "stored s' parent name = Some x"
proof (cases "str_of value")
  case None
  then show ?thesis
    using assms(3) by (simp add: set_from_env_var_interpolation_def)
next
  case (Some t)
  show ?thesis
  proof (cases "findall_first t")
    case None
    then show ?thesis
      using assms(3) Some by (simp add: set_from_env_var_interpolation_def)
  next
    case (Some var_name)
    define v where "v = (if environ w var_name \<noteq> None then getenv w var_name else PyNone)"
    have run: "set_from_env_var_interpolation w name value parent t' = set_attr name v parent t'"
      for t'
      using \<open>str_of value = Some t\<close> Some by (simp add: set_from_env_var_interpolation_def v_def)
    from assms(2,3) show ?thesis
      unfolding run by (rule set_attr_alone [OF assms(1)])
  qed
qed

lemma parent_env_var_alone:
  assumes "store a = []"
    and "stored (state_of (set_from_parent_env_var w name value parent a)) parent name = Some x"
    and "set_from_parent_env_var w name value parent s = Done s'"
  shows "stored s' parent name = Some x"
proof (cases parent)
  case None
  then show ?thesis
    using assms(3) by (simp add: set_from_parent_env_var_def)
next
  case (Some p)
  define attr where "attr = environ w (upper p @ ''_'' @ upper name)"
  show ?thesis
  proof (cases "cast w value attr")
    case (Inr v)
    then have run: "set_from_parent_env_var w name value parent t' = set_attr name v parent t'"
      for t'
      using Some by (simp add: set_from_parent_env_var_def attr_def)
    from assms(2,3) show ?thesis
      unfolding run by (rule set_attr_alone [OF assms(1)])
  next
    case (Inl e)
    show ?thesis
    proof (cases "e = ValueError")
      case False
      then show ?thesis
        using assms(3) Some Inl by (simp add: set_from_parent_env_var_def attr_def)
    next
      case True
      define v where "v = (case attr of Some s \<Rightarrow> PyStr s | None \<Rightarrow> PyNone)"
      define m where "m = cast_message p name attr value"
      have run: "set_from_parent_env_var w name value parent t' =
          set_attr name v parent (logger_call INFO m t')" for t'
        using Some Inl True by (simp add: set_from_parent_env_var_def attr_def v_def m_def Let_def)
      have empty: "store (logger_call INFO m a) = []"
        using assms(1) by (simp add: logger_call_def)
      from assms(2,3) show ?thesis
        unfolding run by (rule set_attr_alone [OF empty])
    qed
  qed
qed

lemma ssm_alone:
  assumes "store a = []" and "ssm a = ssm s"
    and "stored (state_of (set_from_ssm w name value parent a)) parent name = Some x"
    and "set_from_ssm w name value parent s = Done s'"
  shows "stored s' parent name = Some x"
proof -
  from assms(4) obtain get_parameter t where avail: "boto_available w"
    and client: "ssm s = Some get_parameter" and t: "str_of value = Some t"
    by (auto simp: set_from_ssm_def split: if_splits option.splits)
  show ?thesis
  proof (cases "get_parameter (remove_all ''ssm:'' t)")
    case (Response reply)
    show ?thesis
    proof (cases reply)
      case None
      then have "set_from_ssm w name value parent a = Done a"
        using avail client t Response assms(2) by (simp add: set_from_ssm_def)
      then show ?thesis
        using assms(3) not_stored_alone(1) [OF assms(1)] by simp
    next
      case (Some v)
      then have run: "set_from_ssm w name value parent t' = set_attr name (PyStr v) parent t'"
        if "ssm t' = Some get_parameter" for t'
        using avail that t Response by (simp add: set_from_ssm_def)
      have "ssm a = Some get_parameter"
        using assms(2) client by simp
      with assms(3,4) client
      have "stored (state_of (set_attr name (PyStr v) parent a)) parent name = Some x"
        and "set_attr name (PyStr v) parent s = Done s'"
        by (simp_all add: run)
      then show ?thesis
        by (rule set_attr_alone [OF assms(1)])
    qed
  next
    case (ClientError e)
    then have "set_from_ssm w name value parent a = Done (logger_call ERROR e a)"
      using avail client t assms(2) by (simp add: set_from_ssm_def)
    then show ?thesis
      using assms(3) not_stored_alone(3) [OF assms(1)] by simp
  next
    case OtherFailure
    then show ?thesis
      using assms(4) avail client t by (simp add: set_from_ssm_def)
  qed
qed

lemma leaf_alone:
  assumes "is_leaf w (name, value, parent)"
    and "store a = []" and "ssm a = ssm s"
    and "stored (state_of (set_value_from_config w name value parent a)) parent name = Some x"
    and "set_value_from_config w name value parent s = Done s'"
  shows "stored s' parent name = Some x"
proof (cases "env_override w name parent")
  case True
  show ?thesis
  proof (cases "truthy parent")
    case nested: True
    have run: "set_value_from_config w name value parent t' =
        set_from_parent_env_var w name value parent t'" for t'
      using True nested by (simp add: svfc_override)
    from assms(2,4,5) show ?thesis
      unfolding run by (rule parent_env_var_alone)
  next
    case root: False
    have run: "set_value_from_config w name value parent t' =
        set_attr name (getenv w (upper name)) parent t'" for t'
      using True root by (simp add: svfc_override)
    from assms(2,4,5) show ?thesis
      unfolding run by (rule set_attr_alone)
  qed
next
  case False
  then have plain: "items_of value = None"
    using assms(1) by (simp add: is_leaf_def)
  show ?thesis
  proof (cases "is_interpolation value")
    case True
    have run: "set_value_from_config w name value parent t' =
        set_from_env_var_interpolation w name value parent t'" for t'
      using True plain by (simp add: svfc_no_override [OF False])
    from assms(2,4,5) show ?thesis
      unfolding run by (rule interpolation_alone)
  next
    case no: False
    show ?thesis
    proof (cases "is_ssm value")
      case True
      have run: "set_value_from_config w name value parent t' =
          set_from_ssm w name value parent t'" for t'
        using True no plain by (simp add: svfc_no_override [OF False])
      from assms(2-5) show ?thesis
        unfolding run by (rule ssm_alone)
    next
      case lit: False
      have run: "set_value_from_config w name value parent t' =
          set_attr name value parent t'" for t'
        using lit no plain by (simp add: svfc_no_override [OF False])
      from assms(2,4,5) show ?thesis
        unfolding run by (rule set_attr_alone)
    qed
  qed
qed


section \<open>The order of the sections\<close>

text \<open>
  Claim C1, as stated, fails: \<^verbatim>\<open>load\<close> applies the sections in the order of the file.
  With \<^verbatim>\<open>[dev]\<close> written before \<^verbatim>\<open>[default]\<close> and the environment \<^verbatim>\<open>dev\<close>, the key
  \<^verbatim>\<open>project_name\<close>, present in both, resolves to the value of \<^verbatim>\<open>default\<close>, applied last.
\<close>

theorem section_order_counterexample:
  "load (example_world []
       [(''dev'', TomlTable [(''project_name'', TomlString ''configur-dev'')]),
        (''default'', TomlTable [(''project_name'', TomlString ''configur'')])])
     ''example.toml'' example_settings =
     Done (example_settings\<lparr>store := [(''project_name'', PyStr ''configur'')]\<rparr>) \<and>
   getitem (example_settings\<lparr>store := [(''project_name'', PyStr ''configur'')]\<rparr>) ''project_name'' =
     Inr (PyStr ''configur'')"
  by (simp add: load_def example_world_def clear_def example_settings_def items_of_def
      set_value_from_config.simps truthy_def is_interpolation_def is_ssm_def str_of_def
      set_attr_def to_builtin_def getitem_def)

text \<open>
  Claim C1, amended. The sections are applied in the order of the file and, place by
  place, the item applied last wins. Take any item that \<^verbatim>\<open>load\<close> applies, at the root of a
  section or nested in its tables, in \<^verbatim>\<open>default\<close> or in a section of the environment: if
  resolved on its own (on the cleared object) it stores \<open>x\<close> under its key, and no item
  applied after it writes a clashing place, then after a \<^verbatim>\<open>load\<close> that returns \<open>x\<close> is
  what is read back under that key, whatever earlier sections gave it. So for a key
  present in both sections the environment section's value wins when that section follows
  \<^verbatim>\<open>default\<close> in the file, for root keys, nested keys and \<^verbatim>\<open>${...}\<close> values alike, and the
  value of \<^verbatim>\<open>default\<close> wins when \<^verbatim>\<open>default\<close> follows it.
\<close>

theorem last_applied_item_wins:
  assumes "files w path = Document document"
    and "applied_items w (env self) document = earlier @ (name, value, parent) # later"
    and "\<forall>(n, v, p) \<in> set later. \<not> clash (place n p) (place name parent)"
    and "stored (state_of (set_value_from_config w name value parent (clear self))) parent name =
           Some x"
    and "load w path self = Done self'"
  shows "stored self' parent name = Some x"
proof -
  have "load_tables w document (clear self) = Done self'"
    using assms(1,5) by (auto simp: load_def split: if_splits)
  then have "run_items w (applied_items w (env (clear self)) document) (clear self) = Done self'"
    by (rule load_tables_run)
  then have "run_items w (earlier @ (name, value, parent) # later) (clear self) = Done self'"
    using assms(2) by (simp add: clear_def)
  then obtain a b where a: "run_items w earlier (clear self) = Done a"
    and b: "set_value_from_config w name value parent a = Done b"
    and rest: "run_items w later b = Done self'"
    using run_items_Done by blast
  have leaves: "\<forall>item \<in> set (earlier @ (name, value, parent) # later). is_leaf w item"
    using applied_items_are_leaves [of _ w "env self" document] unfolding assms(2) by blast
  have "keeps ((\<lambda>(n, v, p). place n p) ` set earlier) (clear self) (run_items w earlier (clear self))"
    by (rule keeps_run) (use leaves in simp)
  then have client: "ssm (clear self) = ssm a"
    by (simp add: a keeps_def state_of_def)
  have "is_leaf w (name, value, parent)"
    using leaves by simp
  then have here: "stored b parent name = Some x"
    using _ client assms(4) b by (rule leaf_alone) (simp add: clear_def)
  have "keeps ((\<lambda>(n, v, p). place n p) ` set later) b (run_items w later b)"
    by (rule keeps_run) (use leaves in simp)
  moreover have "\<forall>loc \<in> (\<lambda>(n, v, p). place n p) ` set later. \<not> clash loc (place name parent)"
    using assms(3) by auto
  ultimately have "stored self' parent name = stored b parent name"
    unfolding rest keeps_def state_of_def by simp
  then show ?thesis
    using here by simp
qed


theorem last_applied_item_wins_witness:
  "files (example_world [(''LOGNAME'', ''alice'')] [example_default, example_dev]) ''example.toml'' =
     Document [example_default, example_dev] \<and>
   files (example_world [(''LOGNAME'', ''alice'')] [example_dev, example_default]) ''example.toml'' =
     Document [example_dev, example_default] \<and>
   applied_items (example_world [(''LOGNAME'', ''alice'')] [example_default, example_dev]) (env example_settings)
       [example_default, example_dev] =
     [(''user'', TomlString ''nobody'', None), (''host'', TomlString ''localhost'', Some ''db''),
      (''port'', TomlInteger 5432, Some ''db'')] @
     (''user'', TomlString ''${LOGNAME}'', None) # [(''host'', TomlString ''dev.example.org'', Some ''db'')] \<and>
   applied_items (example_world [(''LOGNAME'', ''alice'')] [example_default, example_dev]) (env example_settings)
       [example_default, example_dev] =
     [(''user'', TomlString ''nobody'', None), (''host'', TomlString ''localhost'', Some ''db''),
      (''port'', TomlInteger 5432, Some ''db''), (''user'', TomlString ''${LOGNAME}'', None)] @
     (''host'', TomlString ''dev.example.org'', Some ''db'') # [] \<and>
   applied_items (example_world [(''LOGNAME'', ''alice'')] [example_dev, example_default]) (env example_settings)
       [example_dev, example_default] =
     [(''user'', TomlString ''${LOGNAME}'', None), (''host'', TomlString ''dev.example.org'', Some ''db'')] @
     (''user'', TomlString ''nobody'', None) #
     [(''host'', TomlString ''localhost'', Some ''db''), (''port'', TomlInteger 5432, Some ''db'')] \<and>
   \<not> clash (place ''host'' (Some ''db'')) (place ''user'' None) \<and>
   \<not> clash (place ''port'' (Some ''db'')) (place ''user'' None) \<and>
   stored (state_of (set_value_from_config (example_world [(''LOGNAME'', ''alice'')] [example_default, example_dev])
       ''user'' (TomlString ''${LOGNAME}'') None (clear example_settings))) None ''user'' =
     Some (PyStr ''alice'') \<and>
   stored (state_of (set_value_from_config (example_world [(''LOGNAME'', ''alice'')] [example_default, example_dev])
       ''host'' (TomlString ''dev.example.org'') (Some ''db'') (clear example_settings)))
       (Some ''db'') ''host'' = Some (PyStr ''dev.example.org'') \<and>
   stored (state_of (set_value_from_config (example_world [(''LOGNAME'', ''alice'')] [example_dev, example_default])
       ''user'' (TomlString ''nobody'') None (clear example_settings))) None ''user'' =
     Some (PyStr ''nobody'') \<and>
   load (example_world [(''LOGNAME'', ''alice'')] [example_default, example_dev]) ''example.toml'' example_settings =
     Done (example_settings\<lparr>store := [(''user'', PyStr ''alice''),
       (''db'', Box [(''host'', PyStr ''dev.example.org''), (''port'', PyInt 5432)])]\<rparr>) \<and>
   load (example_world [(''LOGNAME'', ''alice'')] [example_dev, example_default]) ''example.toml'' example_settings =
     Done (example_settings\<lparr>store := [(''user'', PyStr ''nobody''),
       (''db'', Box [(''host'', PyStr ''localhost''), (''port'', PyInt 5432)])]\<rparr>) \<and>
   stored (example_settings\<lparr>store := [(''user'', PyStr ''alice''),
       (''db'', Box [(''host'', PyStr ''dev.example.org''), (''port'', PyInt 5432)])]\<rparr>) None ''user'' = Some (PyStr ''alice'') \<and>
   stored (example_settings\<lparr>store := [(''user'', PyStr ''alice''),
       (''db'', Box [(''host'', PyStr ''dev.example.org''), (''port'', PyInt 5432)])]\<rparr>) (Some ''db'') ''host'' = Some (PyStr ''dev.example.org'') \<and>
   stored (example_settings\<lparr>store := [(''user'', PyStr ''nobody''),
       (''db'', Box [(''host'', PyStr ''localhost''), (''port'', PyInt 5432)])]\<rparr>) None ''user'' = Some (PyStr ''nobody'')"
proof -
  let ?w = "example_world [(''LOGNAME'', ''alice'')] [example_default, example_dev]"
  let ?w' = "example_world [(''LOGNAME'', ''alice'')] [example_dev, example_default]"
  let ?s = "(example_settings\<lparr>store := [(''user'', PyStr ''alice''),
       (''db'', Box [(''host'', PyStr ''dev.example.org''), (''port'', PyInt 5432)])]\<rparr>)"
  let ?s' = "(example_settings\<lparr>store := [(''user'', PyStr ''nobody''),
       (''db'', Box [(''host'', PyStr ''localhost''), (''port'', PyInt 5432)])]\<rparr>)"
  note defs = example_world_def example_default_def example_dev_def example_settings_def
    leaves.simps env_override_def truthy_def items_of_def upper_def upper_char_def
    set_value_from_config.simps is_interpolation_def is_ssm_def str_of_def suffix_def
    set_from_env_var_interpolation_def getenv_def set_attr_def to_builtin_def
    load_def clear_def state_of_def stored_def place_def clash_def
  have f: "files ?w ''example.toml'' = Document [example_default, example_dev]"
    and f': "files ?w' ''example.toml'' = Document [example_dev, example_default]"
    by (simp_all add: example_world_def)
  have a1: "applied_items ?w (env example_settings) [example_default, example_dev] =
     [(''user'', TomlString ''nobody'', None), (''host'', TomlString ''localhost'', Some ''db''),
      (''port'', TomlInteger 5432, Some ''db'')] @
     (''user'', TomlString ''${LOGNAME}'', None) # [(''host'', TomlString ''dev.example.org'', Some ''db'')]"
    by (simp add: defs)
  have a2: "applied_items ?w (env example_settings) [example_default, example_dev] =
     [(''user'', TomlString ''nobody'', None), (''host'', TomlString ''localhost'', Some ''db''),
      (''port'', TomlInteger 5432, Some ''db''), (''user'', TomlString ''${LOGNAME}'', None)] @
     (''host'', TomlString ''dev.example.org'', Some ''db'') # []"
    by (simp add: defs)
  have a3: "applied_items ?w' (env example_settings) [example_dev, example_default] =
     [(''user'', TomlString ''${LOGNAME}'', None), (''host'', TomlString ''dev.example.org'', Some ''db'')] @
     (''user'', TomlString ''nobody'', None) #
     [(''host'', TomlString ''localhost'', Some ''db''), (''port'', TomlInteger 5432, Some ''db'')]"
    by (simp add: defs)
  have c1: "\<not> clash (place ''host'' (Some ''db'')) (place ''user'' None)"
    and c2: "\<not> clash (place ''port'' (Some ''db'')) (place ''user'' None)"
    by (simp_all add: place_def clash_def truthy_def)
  have l1: "\<forall>(n, v, p) \<in> set [(''host'', TomlString ''dev.example.org'', Some ''db'')].
      \<not> clash (place n p) (place ''user'' None)"
    and l2: "\<forall>(n, v, p) \<in> set ([] :: (string \<times> val \<times> string option) list).
      \<not> clash (place n p) (place ''host'' (Some ''db''))"
    and l3: "\<forall>(n, v, p) \<in> set [(''host'', TomlString ''localhost'', Some ''db''), (''port'', TomlInteger 5432, Some ''db'')].
      \<not> clash (place n p) (place ''user'' None)"
    using c1 c2 by simp_all
  have r1: "stored (state_of (set_value_from_config ?w
       ''user'' (TomlString ''${LOGNAME}'') None (clear example_settings))) None ''user'' =
     Some (PyStr ''alice'')"
    by (simp add: defs)
  have r2: "stored (state_of (set_value_from_config ?w
       ''host'' (TomlString ''dev.example.org'') (Some ''db'') (clear example_settings)))
       (Some ''db'') ''host'' = Some (PyStr ''dev.example.org'')"
    by (simp add: defs)
  have r3: "stored (state_of (set_value_from_config ?w'
       ''user'' (TomlString ''nobody'') None (clear example_settings))) None ''user'' =
     Some (PyStr ''nobody'')"
    by (simp add: defs)
  have d1: "load ?w ''example.toml'' example_settings = Done ?s"
    by (simp add: defs)
  have d2: "load ?w' ''example.toml'' example_settings = Done ?s'"
    by (simp add: defs)
  note t1 = last_applied_item_wins [OF f a1 l1 r1 d1]
    and t2 = last_applied_item_wins [OF f a2 l2 r2 d1]
    and t3 = last_applied_item_wins [OF f' a3 l3 r3 d2]
  show ?thesis
    by (intro conjI f f' a1 a2 a3 c1 c2 r1 r2 r3 d1 d2 t1 t2 t3)
qed

end
